theory Spec2Isabelle
  imports Main "HOL-Library.Char_ord" "HOL-Library.List_Lexorder" "HOL-Library.Log_Nat"
begin


section \<open>TaskMaster: the task API of backend/server.py\<close>

text \<open>
  The handlers of \<^verbatim>\<open>backend/server.py\<close> are embedded as functions over an explicit
  collection (the documents of \<^verbatim>\<open>db.tasks\<close>, in insertion order). What a handler reads
  from its environment is an argument: \<open>clk k\<close> is what the \<open>k\<close>-th call of
  \<^verbatim>\<open>datetime.now()\<close> made by the handler returns, and \<open>gen k\<close> is the 12-byte value of
  the \<open>k\<close>-th identifier the driver generates for the handler. A handler that writes
  returns the new collection beside its result; a raised \<^verbatim>\<open>HTTPException\<close> is the
  \<open>Inl\<close> of the result.
\<close>

subsection \<open>Exceptions\<close>

datatype py_exception =
  DuplicateKeyError | InvalidId | ValidationError | TypeError | ValueError
  | OverflowError | ZeroDivisionError

text \<open>
  The detail of an \<^verbatim>\<open>HTTPException\<close> is either a fixed message or, in the catch-all
  handlers, a prefix followed by the text of the exception caught.
\<close>

datatype detail = Detail string | Failed string py_exception

datatype http_error = HTTPException nat detail

subsection \<open>Identifiers (bson.ObjectId)\<close>

text \<open>
  An ObjectId holds bytes, and \<open>str\<close> prints them as lower-case hexadecimal digits; an
  \<open>object_id\<close> is kept as this print. The constructor takes a string of 24 characters and
  reads it with \<^verbatim>\<open>bytes.fromhex\<close>: two adjacent hexadecimal digits of either case for each
  byte, ASCII whitespace skipped before a byte and at the end. So 24 hexadecimal digits
  give the twelve bytes of an identifier, and a string of 24 characters of which some are
  whitespace is accepted too and gives fewer bytes. \<open>is_valid\<close> is, as in the library,
  whether the constructor accepts its argument.
\<close>

datatype object_id = OID string

fun str_oid :: "object_id \<Rightarrow> string" where
  "str_oid (OID s) = s"

definition is_hex :: "char \<Rightarrow> bool" where
  "is_hex c = (c \<in> set ''0123456789abcdefABCDEF'')"

definition lower_hex :: "char \<Rightarrow> char" where
  "lower_hex c =
     (if c = CHR ''A'' then CHR ''a'' else if c = CHR ''B'' then CHR ''b''
      else if c = CHR ''C'' then CHR ''c'' else if c = CHR ''D'' then CHR ''d''
      else if c = CHR ''E'' then CHR ''e'' else if c = CHR ''F'' then CHR ''f'' else c)"

text \<open>Space, tab, line feed, vertical tab, form feed and carriage return.\<close>

definition is_space :: "char \<Rightarrow> bool" where
  "is_space c = (c \<in> set [CHR 0x20, CHR 0x09, CHR 0x0A, CHR 0x0B, CHR 0x0C, CHR 0x0D])"

text \<open>
  \<^verbatim>\<open>bytes.fromhex\<close>, with the bytes read given by their lower-case digits; \<open>None\<close> is
  its ValueError.
\<close>

fun fromhex :: "string \<Rightarrow> string option" where
  "fromhex [] = Some []"
| "fromhex [c] = (if is_space c then Some [] else None)"
| "fromhex (c # d # cs) =
     (if is_space c then fromhex (d # cs)
      else if is_hex c \<and> is_hex d
      then map_option (\<lambda>r. lower_hex c # lower_hex d # r) (fromhex cs)
      else None)"

definition ObjectId :: "string \<Rightarrow> py_exception + object_id" where
  "ObjectId s =
     (if length s = 24
      then (case fromhex s of Some h \<Rightarrow> Inr (OID h) | None \<Rightarrow> Inl InvalidId)
      else Inl InvalidId)"

definition is_valid :: "string \<Rightarrow> bool" where
  "is_valid s = (case ObjectId s of Inr _ \<Rightarrow> True | Inl _ \<Rightarrow> False)"

definition hexchar :: "nat \<Rightarrow> char" where
  "hexchar k = ''0123456789abcdef'' ! (k mod 16)"

fun hexn :: "nat \<Rightarrow> nat \<Rightarrow> string" where
  "hexn 0 n = []"
| "hexn (Suc k) n = hexn k (n div 16) @ [hexchar n]"

text \<open>The identifier the driver generates from a 12-byte value.\<close>

definition new_ObjectId :: "nat \<Rightarrow> object_id" where
  "new_ObjectId n = OID (hexn 24 n)"

subsection \<open>Time (datetime)\<close>

record datetime =
  year :: nat
  month :: nat
  day :: nat
  hour :: nat
  minute :: nat
  second :: nat
  microsecond :: nat

definition is_leap :: "nat \<Rightarrow> bool" where
  "is_leap y = (y mod 4 = 0 \<and> (y mod 100 \<noteq> 0 \<or> y mod 400 = 0))"

definition days_in_month :: "nat \<Rightarrow> nat \<Rightarrow> nat" where
  "days_in_month y m =
     (if m = 2 then (if is_leap y then 29 else 28)
      else if m = 4 \<or> m = 6 \<or> m = 9 \<or> m = 11 then 30 else 31)"

text \<open>The class invariant of a datetime object.\<close>

definition valid_datetime :: "datetime \<Rightarrow> bool" where
  "valid_datetime t =
     (1 \<le> year t \<and> year t \<le> 9999 \<and> 1 \<le> month t \<and> month t \<le> 12 \<and>
      1 \<le> day t \<and> day t \<le> days_in_month (year t) (month t) \<and>
      hour t < 24 \<and> minute t < 60 \<and> second t < 60 \<and> microsecond t < 1000000)"

definition digit :: "nat \<Rightarrow> char" where
  "digit k = ''0123456789'' ! (k mod 10)"

text \<open>
  \<^verbatim>\<open>%02d\<close>, \<^verbatim>\<open>%04d\<close> and \<^verbatim>\<open>%06d\<close> at the values a datetime can hold (the class
  invariant bounds each field by the width printed).
\<close>

definition pad2 :: "nat \<Rightarrow> string" where
  "pad2 n = [digit (n div 10), digit n]"

definition pad4 :: "nat \<Rightarrow> string" where
  "pad4 n = [digit (n div 1000), digit (n div 100), digit (n div 10), digit n]"

definition pad6 :: "nat \<Rightarrow> string" where
  "pad6 n = [digit (n div 100000), digit (n div 10000), digit (n div 1000),
             digit (n div 100), digit (n div 10), digit n]"

text \<open>\<^verbatim>\<open>strftime("%Y-%m-%d")\<close>, also the date part of \<^verbatim>\<open>isoformat()\<close>.\<close>

definition strftime_date :: "datetime \<Rightarrow> string" where
  "strftime_date t = pad4 (year t) @ ''-'' @ pad2 (month t) @ ''-'' @ pad2 (day t)"

definition isoformat_time :: "datetime \<Rightarrow> string" where
  "isoformat_time t =
     pad2 (hour t) @ '':'' @ pad2 (minute t) @ '':'' @ pad2 (second t) @
     (if microsecond t \<noteq> 0 then ''.'' @ pad6 (microsecond t) else [])"

definition isoformat :: "datetime \<Rightarrow> string" where
  "isoformat t = strftime_date t @ ''T'' @ isoformat_time t"

subsection \<open>The request and response models\<close>

record TaskCreate =
  c_title :: string
  c_dueDate :: string
  c_priority :: string
  c_category :: string
  c_notificationId :: "string option"

record TaskUpdate =
  u_title :: "string option"
  u_dueDate :: "string option"
  u_priority :: "string option"
  u_category :: "string option"
  u_completed :: "bool option"
  u_notificationId :: "string option"

record Task =
  t_id :: "string option"
  t_title :: string
  t_dueDate :: string
  t_priority :: string
  t_category :: string
  t_completed :: bool
  t_createdAt :: string
  t_updatedAt :: "string option"
  t_userId :: "string option"
  t_notificationId :: "string option"

record SyncRequest =
  r_tasks :: "Task list"
  r_lastSyncTime :: "string option"

record SyncResponse =
  s_tasks :: "Task list"
  s_conflicts :: "Task list"
  s_syncTime :: string

text \<open>The \<^verbatim>\<open>pattern\<close> constraints of the models' fields.\<close>

definition priority_pattern :: "string \<Rightarrow> bool" where
  "priority_pattern p = (p \<in> set [''high'', ''medium'', ''low''])"

definition category_pattern :: "string \<Rightarrow> bool" where
  "category_pattern c = (c \<in> set [''work'', ''personal'', ''study''])"

definition valid_TaskCreate :: "TaskCreate \<Rightarrow> bool" where
  "valid_TaskCreate c = (priority_pattern (c_priority c) \<and> category_pattern (c_category c))"

definition valid_TaskUpdate :: "TaskUpdate \<Rightarrow> bool" where
  "valid_TaskUpdate u =
     ((case u_priority u of None \<Rightarrow> True | Some p \<Rightarrow> priority_pattern p) \<and>
      (case u_category u of None \<Rightarrow> True | Some c \<Rightarrow> category_pattern c))"

definition valid_Task :: "Task \<Rightarrow> bool" where
  "valid_Task t = (priority_pattern (t_priority t) \<and> category_pattern (t_category t))"

subsection \<open>The collection\<close>

text \<open>
  A stored document: its \<^verbatim>\<open>_id\<close> and the other keys. \<open>k_id\<close> is the key \<^verbatim>\<open>"id"\<close> that
  \<^verbatim>\<open>task.dict()\<close> carries into the documents written by sync (\<open>None\<close>: no such key;
  \<open>Some None\<close>: the key holds null); no handler reads it. A key that is absent and a key
  that holds null read the same through \<^verbatim>\<open>task.get\<close>, so \<open>k_updatedAt\<close>, \<open>k_userId\<close> and
  \<open>k_notificationId\<close> are options.
\<close>

record task_dict =
  k_id :: "string option option"
  k_title :: string
  k_dueDate :: string
  k_priority :: string
  k_category :: string
  k_completed :: bool
  k_createdAt :: string
  k_updatedAt :: "string option"
  k_userId :: "string option"
  k_notificationId :: "string option"

record document =
  oid :: object_id
  keys :: task_dict

type_synonym collection = "document list"

text \<open>
  The store's primitives. \<^verbatim>\<open>insert_one\<close> takes the \<^verbatim>\<open>_id\<close> of the dict when it has one and
  the identifier the driver generates otherwise, and refuses an \<^verbatim>\<open>_id\<close> already stored.
\<close>

definition insert_one ::
  "object_id option \<Rightarrow> object_id \<Rightarrow> task_dict \<Rightarrow> collection \<Rightarrow> (py_exception + object_id) \<times> collection" where
  "insert_one given generated d db =
     (let i = (case given of Some g \<Rightarrow> g | None \<Rightarrow> generated)
      in if i \<in> set (map oid db) then (Inl DuplicateKeyError, db)
         else (Inr i, db @ [\<lparr>oid = i, keys = d\<rparr>]))"

definition find_one :: "object_id \<Rightarrow> collection \<Rightarrow> document option" where
  "find_one i db = find (\<lambda>x. oid x = i) db"

text \<open>\<^verbatim>\<open>update_one\<close> with \<^verbatim>\<open>$set\<close>: the first match is updated; the result is \<^verbatim>\<open>matched_count\<close>.\<close>

fun update_one :: "object_id \<Rightarrow> (task_dict \<Rightarrow> task_dict) \<Rightarrow> collection \<Rightarrow> nat \<times> collection" where
  "update_one i f [] = (0, [])"
| "update_one i f (x # xs) =
     (if oid x = i then (1, x\<lparr>keys := f (keys x)\<rparr> # xs)
      else (case update_one i f xs of (n, ys) \<Rightarrow> (n, x # ys)))"

text \<open>\<^verbatim>\<open>delete_one\<close>: the first match is removed; the result is \<^verbatim>\<open>deleted_count\<close>.\<close>

fun delete_one :: "object_id \<Rightarrow> collection \<Rightarrow> nat \<times> collection" where
  "delete_one i [] = (0, [])"
| "delete_one i (x # xs) =
     (if oid x = i then (1, xs)
      else (case delete_one i xs of (n, ys) \<Rightarrow> (n, x # ys)))"

definition delete_many_all :: "collection \<Rightarrow> collection" where
  "delete_many_all db = []"

definition count_documents :: "(document \<Rightarrow> bool) \<Rightarrow> collection \<Rightarrow> int" where
  "count_documents q db = int (length (filter q db))"

subsection \<open>task-helper and the response model\<close>

text \<open>
  The dict \<^verbatim>\<open>task_helper\<close> returns, written as a record of the shape of \<open>Task\<close>: its
  \<open>t_id\<close> is the key \<^verbatim>\<open>"id"\<close>, the print of the document's \<^verbatim>\<open>_id\<close>.
\<close>

definition task_helper :: "document \<Rightarrow> Task" where
  "task_helper task =
     \<lparr>t_id = Some (str_oid (oid task)),
      t_title = k_title (keys task),
      t_dueDate = k_dueDate (keys task),
      t_priority = k_priority (keys task),
      t_category = k_category (keys task),
      t_completed = k_completed (keys task),
      t_createdAt = k_createdAt (keys task),
      t_updatedAt = k_updatedAt (keys task),
      t_userId = k_userId (keys task),
      t_notificationId = k_notificationId (keys task)\<rparr>"

text \<open>
  \<^verbatim>\<open>Task(**task_helper(task))\<close>. The models are those of the pydantic that checks
  \<^verbatim>\<open>pattern=\<close>: a field is filled through its alias only (the setting
  \<^verbatim>\<open>allow_population_by_field_name\<close> of the class is not one it reads), the alias of \<open>id\<close> is
  \<^verbatim>\<open>_id\<close>, and the key \<^verbatim>\<open>"id"\<close> of the dict is ignored. So the \<open>id\<close> of the model built keeps
  its default None, the other fields are those of the dict, and the patterns are checked.
  \<^verbatim>\<open>task_helper(None)\<close> is a TypeError.
\<close>

definition Task_of :: "document option \<Rightarrow> py_exception + Task" where
  "Task_of found =
     (case found of
        None \<Rightarrow> Inl TypeError
      | Some task \<Rightarrow>
          if valid_Task (task_helper task) then Inr ((task_helper task)\<lparr>t_id := None\<rparr>)
          else Inl ValidationError)"

subsection \<open>Create, list, get, update, delete\<close>

definition create_task ::
  "(nat \<Rightarrow> datetime) \<Rightarrow> (nat \<Rightarrow> nat) \<Rightarrow> TaskCreate \<Rightarrow> collection \<Rightarrow> (http_error + Task) \<times> collection" where
  "create_task clk gen task_data db =
     (let task_dict =
            \<lparr>k_id = None,
             k_title = c_title task_data,
             k_dueDate = c_dueDate task_data,
             k_priority = c_priority task_data,
             k_category = c_category task_data,
             k_completed = False,
             k_createdAt = isoformat (clk 0),
             k_updatedAt = Some (isoformat (clk 1)),
             k_userId = None,
             k_notificationId = c_notificationId task_data\<rparr>
      in case insert_one None (new_ObjectId (gen 0)) task_dict db of
           (Inl e, db') \<Rightarrow> (Inl (HTTPException 500 (Failed ''Failed to create task: '' e)), db')
         | (Inr inserted_id, db') \<Rightarrow>
             (case Task_of (find_one inserted_id db') of
                Inl e \<Rightarrow> (Inl (HTTPException 500 (Failed ''Failed to create task: '' e)), db')
              | Inr t \<Rightarrow> (Inr t, db')))"

text \<open>
  The query of \<^verbatim>\<open>get_tasks\<close>: a filter takes part only when its parameter is given and,
  for category and priority, is one of the listed values.
\<close>

definition tasks_query :: "string option \<Rightarrow> string option \<Rightarrow> bool option \<Rightarrow> document \<Rightarrow> bool" where
  "tasks_query category priority completed x =
     ((case category of
         None \<Rightarrow> True
       | Some c \<Rightarrow> if c \<noteq> [] \<and> c \<in> set [''work'', ''personal'', ''study'']
                   then k_category (keys x) = c else True) \<and>
      (case priority of
         None \<Rightarrow> True
       | Some p \<Rightarrow> if p \<noteq> [] \<and> p \<in> set [''high'', ''medium'', ''low'']
                   then k_priority (keys x) = p else True) \<and>
      (case completed of None \<Rightarrow> True | Some b \<Rightarrow> k_completed (keys x) = b))"

text \<open>
  \<^verbatim>\<open>find(query).limit(limit).sort("createdAt", -1).to_list(limit)\<close>: the cursor sorts
  before it limits, \<^verbatim>\<open>to_list\<close> refuses a negative length and returns at most \<open>limit\<close>
  documents. Documents with equal keys are taken in the reverse of their stored order
  (the store leaves their order open).
\<close>

definition find_sorted :: "(document \<Rightarrow> bool) \<Rightarrow> int \<Rightarrow> collection \<Rightarrow> py_exception + document list" where
  "find_sorted q limit db =
     (if limit < 0 then Inl ValueError
      else Inr (take (nat limit) (rev (sort_key (\<lambda>x. k_createdAt (keys x)) (filter q db)))))"

fun Tasks_of :: "document list \<Rightarrow> py_exception + Task list" where
  "Tasks_of [] = Inr []"
| "Tasks_of (x # xs) =
     (case Task_of (Some x) of
        Inl e \<Rightarrow> Inl e
      | Inr t \<Rightarrow> (case Tasks_of xs of Inl e \<Rightarrow> Inl e | Inr ts \<Rightarrow> Inr (t # ts)))"

definition get_tasks ::
  "string option \<Rightarrow> string option \<Rightarrow> bool option \<Rightarrow> int \<Rightarrow> collection \<Rightarrow> http_error + Task list" where
  "get_tasks category priority completed limit db =
     (case find_sorted (tasks_query category priority completed) limit db of
        Inl e \<Rightarrow> Inl (HTTPException 500 (Failed ''Failed to fetch tasks: '' e))
      | Inr tasks \<Rightarrow>
          (case Tasks_of tasks of
             Inl e \<Rightarrow> Inl (HTTPException 500 (Failed ''Failed to fetch tasks: '' e))
           | Inr ts \<Rightarrow> Inr ts))"

definition get_task :: "string \<Rightarrow> collection \<Rightarrow> http_error + Task" where
  "get_task task_id db =
     (if \<not> is_valid task_id then Inl (HTTPException 400 (Detail ''Invalid task ID format''))
      else case ObjectId task_id of
             Inl e \<Rightarrow> Inl (HTTPException 500 (Failed ''Failed to fetch task: '' e))
           | Inr i \<Rightarrow>
               (case find_one i db of
                  None \<Rightarrow> Inl (HTTPException 404 (Detail ''Task not found''))
                | Some task \<Rightarrow>
                    (case Task_of (Some task) of
                       Inl e \<Rightarrow> Inl (HTTPException 500 (Failed ''Failed to fetch task: '' e))
                     | Inr t \<Rightarrow> Inr t)))"

text \<open>
  \<open>update_data\<close>: the fields of the partial that are not None, as the \<^verbatim>\<open>$set\<close> they make.
  \<open>no_update_data\<close> is the emptiness of that dict.
\<close>

definition no_update_data :: "TaskUpdate \<Rightarrow> bool" where
  "no_update_data u =
     (u_title u = None \<and> u_dueDate u = None \<and> u_priority u = None \<and>
      u_category u = None \<and> u_completed u = None \<and> u_notificationId u = None)"

definition set_update_data :: "TaskUpdate \<Rightarrow> string \<Rightarrow> task_dict \<Rightarrow> task_dict" where
  "set_update_data u now d =
     d\<lparr>k_title := (case u_title u of None \<Rightarrow> k_title d | Some v \<Rightarrow> v),
       k_dueDate := (case u_dueDate u of None \<Rightarrow> k_dueDate d | Some v \<Rightarrow> v),
       k_priority := (case u_priority u of None \<Rightarrow> k_priority d | Some v \<Rightarrow> v),
       k_category := (case u_category u of None \<Rightarrow> k_category d | Some v \<Rightarrow> v),
       k_completed := (case u_completed u of None \<Rightarrow> k_completed d | Some v \<Rightarrow> v),
       k_notificationId :=
         (case u_notificationId u of None \<Rightarrow> k_notificationId d | Some v \<Rightarrow> Some v),
       k_updatedAt := Some now\<rparr>"

definition update_task ::
  "(nat \<Rightarrow> datetime) \<Rightarrow> string \<Rightarrow> TaskUpdate \<Rightarrow> collection \<Rightarrow> (http_error + Task) \<times> collection" where
  "update_task clk task_id task_update db =
     (if \<not> is_valid task_id then (Inl (HTTPException 400 (Detail ''Invalid task ID format'')), db)
      else if no_update_data task_update
      then (Inl (HTTPException 400 (Detail ''No valid update data provided'')), db)
      else case ObjectId task_id of
             Inl e \<Rightarrow> (Inl (HTTPException 500 (Failed ''Failed to update task: '' e)), db)
           | Inr i \<Rightarrow>
               (case update_one i (set_update_data task_update (isoformat (clk 0))) db of
                  (matched_count, db') \<Rightarrow>
                    if matched_count = 0
                    then (Inl (HTTPException 404 (Detail ''Task not found'')), db')
                    else (case Task_of (find_one i db') of
                            Inl e \<Rightarrow> (Inl (HTTPException 500 (Failed ''Failed to update task: '' e)), db')
                          | Inr t \<Rightarrow> (Inr t, db'))))"

text \<open>The confirmation of a delete: \<^verbatim>\<open>{"message": ..., "taskId": task_id}\<close>.\<close>

record Deleted =
  message :: string
  taskId :: string

definition delete_task :: "string \<Rightarrow> collection \<Rightarrow> (http_error + Deleted) \<times> collection" where
  "delete_task task_id db =
     (if \<not> is_valid task_id then (Inl (HTTPException 400 (Detail ''Invalid task ID format'')), db)
      else case ObjectId task_id of
             Inl e \<Rightarrow> (Inl (HTTPException 500 (Failed ''Failed to delete task: '' e)), db)
           | Inr i \<Rightarrow>
               (case delete_one i db of
                  (deleted_count, db') \<Rightarrow>
                    if deleted_count = 0
                    then (Inl (HTTPException 404 (Detail ''Task not found'')), db')
                    else (Inr \<lparr>message = ''Task deleted successfully'', taskId = task_id\<rparr>, db')))"

subsection \<open>Sync\<close>

text \<open>
  The loop of \<^verbatim>\<open>sync_tasks\<close>. \<open>n\<close> counts the identifiers the driver has generated so
  far. A task whose \<open>id\<close> is None or empty keeps the key \<^verbatim>\<open>"id"\<close> and gets no \<^verbatim>\<open>_id\<close>; a
  well-formed \<open>id\<close> becomes the \<^verbatim>\<open>_id\<close>; any other \<open>id\<close> is popped. An exception leaves the
  loop with the collection as it then is.
\<close>

definition sync_dict :: "string \<Rightarrow> Task \<Rightarrow> task_dict" where
  "sync_dict current_time task =
     \<lparr>k_id = (case t_id task of
                None \<Rightarrow> Some None
              | Some s \<Rightarrow> if s \<noteq> [] \<and> \<not> is_valid s then None else Some (Some s)),
      k_title = t_title task,
      k_dueDate = t_dueDate task,
      k_priority = t_priority task,
      k_category = t_category task,
      k_completed = t_completed task,
      k_createdAt = t_createdAt task,
      k_updatedAt = Some current_time,
      k_userId = t_userId task,
      k_notificationId = t_notificationId task\<rparr>"

definition sync_given_id :: "Task \<Rightarrow> object_id option" where
  "sync_given_id task =
     (case t_id task of
        None \<Rightarrow> None
      | Some s \<Rightarrow> if s \<noteq> [] \<and> is_valid s
                  then (case ObjectId s of Inr i \<Rightarrow> Some i | Inl e \<Rightarrow> None) else None)"

fun sync_loop ::
  "string \<Rightarrow> (nat \<Rightarrow> nat) \<Rightarrow> nat \<Rightarrow> Task list \<Rightarrow> collection \<Rightarrow> (py_exception + Task list) \<times> collection" where
  "sync_loop current_time gen n [] db = (Inr [], db)"
| "sync_loop current_time gen n (task # rest) db =
     (case insert_one (sync_given_id task) (new_ObjectId (gen n)) (sync_dict current_time task) db of
        (Inl e, db') \<Rightarrow> (Inl e, db')
      | (Inr inserted_id, db') \<Rightarrow>
          (case Task_of (find_one inserted_id db') of
             Inl e \<Rightarrow> (Inl e, db')
           | Inr t \<Rightarrow>
               (case sync_loop current_time gen
                       (if sync_given_id task = None then Suc n else n) rest db' of
                  (Inl e, db'') \<Rightarrow> (Inl e, db'')
                | (Inr ts, db'') \<Rightarrow> (Inr (t # ts), db''))))"

definition sync_tasks ::
  "(nat \<Rightarrow> datetime) \<Rightarrow> (nat \<Rightarrow> nat) \<Rightarrow> SyncRequest \<Rightarrow> collection \<Rightarrow> (http_error + SyncResponse) \<times> collection" where
  "sync_tasks clk gen sync_request db =
     (let current_time = isoformat (clk 0)
      in case sync_loop current_time gen 0 (r_tasks sync_request) (delete_many_all db) of
           (Inl e, db') \<Rightarrow> (Inl (HTTPException 500 (Failed ''Failed to sync tasks: '' e)), db')
         | (Inr server_tasks, db') \<Rightarrow>
             (Inr \<lparr>s_tasks = server_tasks, s_conflicts = [], s_syncTime = current_time\<rparr>, db'))"

definition lower_hexdigit :: "char \<Rightarrow> bool" where
  "lower_hexdigit c = (c \<in> set ''0123456789abcdef'')"

subsection \<open>Date arithmetic (datetime and timedelta)\<close>

text \<open>
  The proleptic Gregorian ordinal of a date and its inverse, as the library's
  \<^verbatim>\<open>_ymd2ord\<close> and \<^verbatim>\<open>_ord2ymd\<close> compute them; day 1 is 0001-01-01 and the last day,
  9999-12-31, is day 3652059.
\<close>

definition days_before_year :: "int \<Rightarrow> int" where
  "days_before_year y = (let y1 = y - 1 in y1 * 365 + y1 div 4 - y1 div 100 + y1 div 400)"

definition days_before_month :: "nat \<Rightarrow> nat \<Rightarrow> int" where
  "days_before_month y m =
     [0, 0, 31, 59, 90, 120, 151, 181, 212, 243, 273, 304, 334] ! m
     + (if m > 2 \<and> is_leap y then 1 else 0)"

definition toordinal :: "datetime \<Rightarrow> int" where
  "toordinal t =
     days_before_year (int (year t)) + days_before_month (year t) (month t) + int (day t)"

definition ord2ymd :: "int \<Rightarrow> nat \<times> nat \<times> nat" where
  "ord2ymd ordinal =
     (let n = ordinal - 1;
          n400 = n div 146097; n = n mod 146097;
          n100 = n div 36524; n = n mod 36524;
          n4 = n div 1461; n = n mod 1461;
          n1 = n div 365; n = n mod 365;
          y = n400 * 400 + 1 + n100 * 100 + n4 * 4 + n1
      in if n1 = 4 \<or> n100 = 4 then (nat (y - 1), 12, 31)
         else let leapyear = (n1 = 3 \<and> (n4 \<noteq> 24 \<or> n100 = 3));
                  m = nat ((n + 50) div 32);
                  preceding = [0, 0, 31, 59, 90, 120, 151, 181, 212, 243, 273, 304, 334] ! m
                              + (if m > 2 \<and> leapyear then 1 else 0)
              in if preceding > n
                 then let m' = m - 1;
                          preceding' = preceding
                            - ([0, 31, 28, 31, 30, 31, 30, 31, 31, 30, 31, 30, 31] ! m'
                               + (if m' = 2 \<and> leapyear then 1 else 0))
                      in (nat y, m', nat (n - preceding' + 1))
                 else (nat y, m, nat (n - preceding + 1)))"

text \<open>\<^verbatim>\<open>weekday()\<close>: Monday is 0.\<close>

definition weekday :: "datetime \<Rightarrow> int" where
  "weekday t = (toordinal t + 6) mod 7"

text \<open>
  A timedelta, and the sum of a datetime and a timedelta: the time of day carries into
  the days, and a day outside 1..3652059 is an OverflowError.
\<close>

record timedelta =
  td_days :: int
  td_seconds :: int
  td_microseconds :: int

definition timedelta :: "int \<Rightarrow> int \<Rightarrow> int \<Rightarrow> int \<Rightarrow> int \<Rightarrow> timedelta" where
  "timedelta weeks days hours minutes seconds =
     (let s = hours * 3600 + minutes * 60 + seconds
      in \<lparr>td_days = weeks * 7 + days + s div 86400, td_seconds = s mod 86400,
          td_microseconds = 0\<rparr>)"

definition datetime_add :: "datetime \<Rightarrow> timedelta \<Rightarrow> py_exception + datetime" where
  "datetime_add t d =
     (let us = int (microsecond t) + td_microseconds d;
          s = int (hour t) * 3600 + int (minute t) * 60 + int (second t) + td_seconds d
              + us div 1000000;
          days = toordinal t + td_days d + s div 86400;
          s = s mod 86400
      in if 0 < days \<and> days \<le> 3652059
         then (case ord2ymd days of
                 (y, m, dd) \<Rightarrow>
                   Inr \<lparr>year = y, month = m, day = dd,
                        hour = nat (s div 3600), minute = nat (s mod 3600 div 60),
                        second = nat (s mod 60), microsecond = nat (us mod 1000000)\<rparr>)
         else Inl OverflowError)"

definition datetime_sub :: "datetime \<Rightarrow> timedelta \<Rightarrow> py_exception + datetime" where
  "datetime_sub t d =
     datetime_add t \<lparr>td_days = - td_days d, td_seconds = - td_seconds d,
                     td_microseconds = - td_microseconds d\<rparr>"

text \<open>\<^verbatim>\<open>replace(hour=0, minute=0, second=0, microsecond=0)\<close> and its end-of-day twin.\<close>

definition start_of_day :: "datetime \<Rightarrow> datetime" where
  "start_of_day t = t\<lparr>hour := 0, minute := 0, second := 0, microsecond := 0\<rparr>"

definition end_of_day :: "datetime \<Rightarrow> datetime" where
  "end_of_day t = t\<lparr>hour := 23, minute := 59, second := 59, microsecond := 999999\<rparr>"

text \<open>\<^verbatim>\<open>strftime("%a")\<close> in the C locale.\<close>

definition strftime_a :: "datetime \<Rightarrow> string" where
  "strftime_a t = [''Mon'', ''Tue'', ''Wed'', ''Thu'', ''Fri'', ''Sat'', ''Sun''] ! nat (weekday t)"

subsection \<open>Numbers (int and float)\<close>

text \<open>
  A Python number is an int or a float. A float is kept as the rational it denotes:
  \<open>to_double\<close> rounds a rational to the nearest number with a 53-bit significand, ties to
  even (the exponent range of a double is not modelled: the quotients and sums of counts
  formed here stay inside it).
\<close>

datatype number = PyInt int | PyFloat rat

definition round_half_even :: "rat \<Rightarrow> int" where
  "round_half_even x =
     (let f = \<lfloor>x\<rfloor>; r = x - of_int f
      in if r < 1 / 2 then f else if 1 / 2 < r then f + 1 else if even f then f else f + 1)"

text \<open>\<open>ilog2 y\<close> is the integer \<open>e\<close> with \<open>2 ^ e \<le> y < 2 ^ (e + 1)\<close>, for \<open>y > 0\<close>.\<close>

definition ilog2 :: "rat \<Rightarrow> int" where
  "ilog2 y =
     (if 1 \<le> y then int (floorlog 2 (nat \<lfloor>y\<rfloor>)) - 1
      else - int (floorlog 2 (nat (\<lceil>1 / y\<rceil> - 1))))"

definition to_double :: "rat \<Rightarrow> rat" where
  "to_double x =
     (if x = 0 then 0
      else let ulp = 2 powi (ilog2 \<bar>x\<bar> - 52)
           in of_int (round_half_even (x / ulp)) * ulp)"

text \<open>\<open>a / b\<close> on ints: the correctly rounded quotient, or ZeroDivisionError.\<close>

definition py_truediv :: "int \<Rightarrow> int \<Rightarrow> py_exception + number" where
  "py_truediv a b =
     (if b = 0 then Inl ZeroDivisionError else Inr (PyFloat (to_double (of_int a / of_int b))))"

definition py_mul :: "number \<Rightarrow> int \<Rightarrow> number" where
  "py_mul x n =
     (case x of
        PyInt a \<Rightarrow> PyInt (a * n)
      | PyFloat a \<Rightarrow> PyFloat (to_double (a * to_double (of_int n))))"

definition py_add :: "number \<Rightarrow> int \<Rightarrow> number" where
  "py_add x n =
     (case x of
        PyInt a \<Rightarrow> PyInt (a + n)
      | PyFloat a \<Rightarrow> PyFloat (to_double (a + to_double (of_int n))))"

text \<open>
  \<^verbatim>\<open>round(x, 1)\<close>: an int is returned as it is; a float is rounded to one decimal, ties
  to even, and the decimal is read back as a float.
\<close>

definition py_round1 :: "number \<Rightarrow> number" where
  "py_round1 x =
     (case x of
        PyInt a \<Rightarrow> PyInt a
      | PyFloat a \<Rightarrow> PyFloat (to_double (of_int (round_half_even (a * 10)) / 10)))"

text \<open>The expression \<^verbatim>\<open>(c / t * 100) if t > 0 else 0\<close> that every rate of the reports is.\<close>

definition rate :: "int \<Rightarrow> int \<Rightarrow> py_exception + number" where
  "rate c t =
     (if t > 0 then (case py_truediv c t of Inl e \<Rightarrow> Inl e | Inr q \<Rightarrow> Inr (py_mul q 100))
      else Inr (PyInt 0))"

subsection \<open>Statistics\<close>

text \<open>Sequencing of steps that may raise: the first exception ends the computation.\<close>

definition and_then :: "py_exception + 'a \<Rightarrow> ('a \<Rightarrow> py_exception + 'b) \<Rightarrow> py_exception + 'b" where
  "and_then m f = (case m of Inl e \<Rightarrow> Inl e | Inr x \<Rightarrow> f x)"

fun map_exc :: "('a \<Rightarrow> py_exception + 'b) \<Rightarrow> 'a list \<Rightarrow> py_exception + 'b list" where
  "map_exc f [] = Inr []"
| "map_exc f (x # xs) =
     and_then (f x) (\<lambda>y. and_then (map_exc f xs) (\<lambda>ys. Inr (y # ys)))"

text \<open>
  The \<^verbatim>\<open>$group\<close> stage of the two aggregations: one group for each value of the key, with
  the number of its documents and of its completed documents (the store leaves the order
  of the groups open; here they stand in the order \<open>remdups\<close> gives).
\<close>

record group_row =
  g_id :: string
  g_total :: int
  g_completed :: int

definition aggregate_group :: "(document \<Rightarrow> string) \<Rightarrow> collection \<Rightarrow> group_row list" where
  "aggregate_group key db =
     map (\<lambda>k. \<lparr>g_id = k,
               g_total = count_documents (\<lambda>x. key x = k) db,
               g_completed = count_documents (\<lambda>x. key x = k \<and> k_completed (keys x)) db\<rparr>)
         (remdups (map key db))"

text \<open>The report.\<close>

record Overview =
  totalTasks :: int
  completedTasks :: int
  pendingTasks :: int
  overdueTask :: int
  todayTasks :: int
  weekTasks :: int
  completionRate :: number

record bucket =
  b_total :: int
  b_completed :: int
  b_pending :: int
  b_completionRate :: number

record daily_row =
  e_date :: string
  e_day :: string
  e_created :: int
  e_completed :: int
  e_completionRate :: number

record Insights =
  mostProductiveCategory :: "string option"
  leastProductiveCategory :: "string option"
  averageTasksPerDay :: number
  streak :: int
  productivityScore :: number

record Stats =
  overview :: Overview
  categoryStats :: "(string \<times> bucket) list"
  priorityStats :: "(string \<times> bucket) list"
  dailyTrends :: "daily_row list"
  insights :: Insights
  timestamp :: string

text \<open>One entry of the dict comprehensions \<open>categoryStats\<close> and \<open>priorityStats\<close>.\<close>

definition bucket_of :: "group_row \<Rightarrow> py_exception + string \<times> bucket" where
  "bucket_of item =
     and_then (rate (g_completed item) (g_total item))
       (\<lambda>r. Inr (g_id item,
                  \<lparr>b_total = g_total item,
                   b_completed = g_completed item,
                   b_pending = g_total item - g_completed item,
                   b_completionRate = py_round1 r\<rparr>))"

text \<open>One round of the loop over the last seven days, for the day \<open>date\<close>.\<close>

definition daily_entry :: "collection \<Rightarrow> datetime \<Rightarrow> py_exception + daily_row" where
  "daily_entry db date =
     (let day_start = isoformat (start_of_day date);
          day_end = isoformat (end_of_day date);
          day_total = count_documents
            (\<lambda>x. day_start \<le> k_createdAt (keys x) \<and> k_createdAt (keys x) \<le> day_end) db;
          day_completed = count_documents
            (\<lambda>x. day_start \<le> k_createdAt (keys x) \<and> k_createdAt (keys x) \<le> day_end \<and>
                  k_completed (keys x) = True) db
      in and_then (rate day_completed day_total)
           (\<lambda>r. Inr \<lparr>e_date = strftime_date date, e_day = strftime_a date,
                       e_created = day_total, e_completed = day_completed,
                       e_completionRate = r\<rparr>))"

text \<open>Python's \<^verbatim>\<open>max\<close> and \<^verbatim>\<open>min\<close> with a key: the first of the largest (smallest).\<close>

fun max_by :: "('a \<Rightarrow> int) \<Rightarrow> 'a \<Rightarrow> 'a list \<Rightarrow> 'a" where
  "max_by f best [] = best"
| "max_by f best (x # xs) = max_by f (if f best < f x then x else best) xs"

fun min_by :: "('a \<Rightarrow> int) \<Rightarrow> 'a \<Rightarrow> 'a list \<Rightarrow> 'a" where
  "min_by f best [] = best"
| "min_by f best (x # xs) = min_by f (if f x < f best then x else best) xs"

text \<open>
  The body of \<^verbatim>\<open>get_stats\<close>. The clock is read fifteen times: reading 0 is
  \<open>current_time\<close>, 1 and 2 bound today, 3 to 6 bound the week, 7 to 13 are the seven rounds
  of the loop and 14 is the timestamp of the report.
\<close>

definition stats_report :: "(nat \<Rightarrow> datetime) \<Rightarrow> collection \<Rightarrow> py_exception + Stats" where
  "stats_report clk db =
     (let total_tasks = count_documents (\<lambda>x. True) db;
          completed_tasks = count_documents (\<lambda>x. k_completed (keys x) = True) db;
          pending_tasks = total_tasks - completed_tasks;
          current_time = isoformat (clk 0);
          overdue_tasks = count_documents
            (\<lambda>x. k_completed (keys x) = False \<and> k_dueDate (keys x) < current_time) db;
          today_start = isoformat (start_of_day (clk 1));
          today_end = isoformat (end_of_day (clk 2));
          today_tasks = count_documents
            (\<lambda>x. today_start \<le> k_dueDate (keys x) \<and> k_dueDate (keys x) \<le> today_end) db
      in and_then (datetime_sub (clk 3) (timedelta 0 (weekday (clk 4)) 0 0 0)) (\<lambda>ws.
         and_then (datetime_add (clk 5) (timedelta 0 (6 - weekday (clk 6)) 0 0 0)) (\<lambda>we.
           let week_start = isoformat (start_of_day ws);
               week_end = isoformat (end_of_day we);
               week_tasks = count_documents
                 (\<lambda>x. week_start \<le> k_dueDate (keys x) \<and> k_dueDate (keys x) \<le> week_end) db;
               categories = aggregate_group (\<lambda>x. k_category (keys x)) db;
               priorities = aggregate_group (\<lambda>x. k_priority (keys x)) db
           in and_then (map_exc (\<lambda>i. and_then (datetime_sub (clk (7 + i)) (timedelta 0 (int i) 0 0 0))
                                       (daily_entry db)) [0, 1, 2, 3, 4, 5, 6]) (\<lambda>daily_stats.
              and_then (rate completed_tasks total_tasks) (\<lambda>completion_rate.
              and_then (map_exc bucket_of categories) (\<lambda>category_stats.
              and_then (map_exc bucket_of priorities) (\<lambda>priority_stats.
              and_then (py_truediv total_tasks 7) (\<lambda>average.
                Inr \<lparr>overview =
                       \<lparr>totalTasks = total_tasks,
                        completedTasks = completed_tasks,
                        pendingTasks = pending_tasks,
                        overdueTask = overdue_tasks,
                        todayTasks = today_tasks,
                        weekTasks = week_tasks,
                        completionRate = py_round1 completion_rate\<rparr>,
                     categoryStats = category_stats,
                     priorityStats = priority_stats,
                     dailyTrends = rev daily_stats,
                     insights =
                       \<lparr>mostProductiveCategory =
                          (case categories of
                             [] \<Rightarrow> None | c # cs \<Rightarrow> Some (g_id (max_by g_completed c cs))),
                        leastProductiveCategory =
                          (case categories of
                             [] \<Rightarrow> None | c # cs \<Rightarrow> Some (g_id (min_by g_completed c cs))),
                        averageTasksPerDay = py_round1 average,
                        streak = 0,
                        productivityScore =
                          py_round1 (py_add completion_rate
                            (if overdue_tasks = 0 then 10 else - overdue_tasks * 2))\<rparr>,
                     timestamp = isoformat (clk 14)\<rparr>))))))))"

definition get_stats :: "(nat \<Rightarrow> datetime) \<Rightarrow> collection \<Rightarrow> http_error + Stats" where
  "get_stats clk db =
     (case stats_report clk db of
        Inl e \<Rightarrow> Inl (HTTPException 500 (Failed ''Failed to fetch analytics: '' e))
      | Inr r \<Rightarrow> Inr r)"

text \<open>
  \<^verbatim>\<open>get_productivity_analytics\<close>: round \<open>week\<close> of its loop reads the clock twice (readings
  \<open>2 * week\<close> and \<open>2 * week + 1\<close>); reading 8 is the timestamp.
\<close>

record week_row =
  w_week :: string
  w_startDate :: string
  w_created :: int
  w_completed :: int
  w_completionRate :: number

record Productivity =
  weeklyTrends :: "week_row list"
  p_timestamp :: string

definition week_entry :: "(nat \<Rightarrow> datetime) \<Rightarrow> collection \<Rightarrow> nat \<Rightarrow> py_exception + week_row" where
  "week_entry clk db week =
     and_then (datetime_sub (clk (2 * week))
                 (timedelta (int week) (weekday (clk (2 * week + 1))) 0 0 0)) (\<lambda>t.
       let week_start = start_of_day t
       in and_then (datetime_add week_start (timedelta 0 6 23 59 59)) (\<lambda>week_end.
            let week_tasks = count_documents
                  (\<lambda>x. isoformat week_start \<le> k_createdAt (keys x) \<and>
                        k_createdAt (keys x) \<le> isoformat week_end) db;
                week_completed = count_documents
                  (\<lambda>x. isoformat week_start \<le> k_createdAt (keys x) \<and>
                        k_createdAt (keys x) \<le> isoformat week_end \<and>
                        k_completed (keys x) = True) db
            in and_then (rate week_completed week_tasks) (\<lambda>r.
                 Inr \<lparr>w_week = ''Week '' @ [digit (4 - week)],
                      w_startDate = strftime_date week_start,
                      w_created = week_tasks,
                      w_completed = week_completed,
                      w_completionRate = py_round1 r\<rparr>)))"

definition get_productivity_analytics ::
  "(nat \<Rightarrow> datetime) \<Rightarrow> collection \<Rightarrow> http_error + Productivity" where
  "get_productivity_analytics clk db =
     (case map_exc (week_entry clk db) [0, 1, 2, 3] of
        Inl e \<Rightarrow> Inl (HTTPException 500 (Failed ''Failed to fetch productivity analytics: '' e))
      | Inr weekly_stats \<Rightarrow>
          Inr \<lparr>weeklyTrends = rev weekly_stats, p_timestamp = isoformat (clk 8)\<rparr>)"

subsection \<open>Notions used to state the properties\<close>

text \<open>
  A clock reading far enough from the ends of the calendar for the date arithmetic of the
  reports: a datetime of the years 2 to 9998.
\<close>

definition in_range :: "datetime \<Rightarrow> bool" where
  "in_range t = (valid_datetime t \<and> 2 \<le> year t \<and> year t \<le> 9998)"

text \<open>The datetime \<open>n\<close> days away from \<open>t\<close>, at the same time of day.\<close>

definition shift_days :: "datetime \<Rightarrow> int \<Rightarrow> datetime" where
  "shift_days t n =
     (case ord2ymd (toordinal t + n) of (y, m, d) \<Rightarrow> t\<lparr>year := y, month := m, day := d\<rparr>)"

definition same_date :: "datetime \<Rightarrow> datetime \<Rightarrow> bool" where
  "same_date a b = (year a = year b \<and> month a = month b \<and> day a = day b)"

text \<open>A string that is the \<^verbatim>\<open>isoformat()\<close> of some datetime, as the server writes them.\<close>

definition isoformat_stamp :: "string \<Rightarrow> bool" where
  "isoformat_stamp s = (\<exists>t. valid_datetime t \<and> s = isoformat t)"

text \<open>The value of a rate, which is never an exception.\<close>

definition rate_value :: "int \<Rightarrow> int \<Rightarrow> number" where
  "rate_value c t =
     (if t > 0 then py_mul (PyFloat (to_double (of_int c / of_int t))) 100 else PyInt 0)"

text \<open>The first \<open>n\<close> readings of a clock are in range.\<close>

definition readings_in_range :: "nat \<Rightarrow> (nat \<Rightarrow> datetime) \<Rightarrow> bool" where
  "readings_in_range n clk = list_all (\<lambda>k. in_range (clk k)) [0..<n]"



text \<open>
  The number of documents created on the day a date string names, and of those that are
  completed: the date part of \<open>createdAt\<close> is its first ten characters.
\<close>

definition created_on :: "string \<Rightarrow> collection \<Rightarrow> int" where
  "created_on d db = int (length (filter (\<lambda>x. take 10 (k_createdAt (keys x)) = d) db))"

definition completed_on :: "string \<Rightarrow> collection \<Rightarrow> int" where
  "completed_on d db =
     int (length (filter (\<lambda>x. take 10 (k_createdAt (keys x)) = d \<and> k_completed (keys x)) db))"

text \<open>
  The identifiers of a synced list, in the words of the specification: a task keeps the
  identifier its \<open>id\<close> denotes when the \<open>id\<close> is a well-formed identifier, and gets a fresh
  one, the next the driver generates, when its \<open>id\<close> is malformed or absent. \<open>n\<close> counts
  the identifiers generated so far.
\<close>

fun sync_ids :: "(nat \<Rightarrow> nat) \<Rightarrow> nat \<Rightarrow> Task list \<Rightarrow> object_id list" where
  "sync_ids gen n [] = []"
| "sync_ids gen n (task # rest) =
     (case t_id task of
        None \<Rightarrow> new_ObjectId (gen n) # sync_ids gen (Suc n) rest
      | Some s \<Rightarrow>
          (case ObjectId s of
             Inl e \<Rightarrow> new_ObjectId (gen n) # sync_ids gen (Suc n) rest
           | Inr i \<Rightarrow> i # sync_ids gen n rest))"

subsection \<open>Example data\<close>

definition id_a :: string where
  "id_a = ''507f1f77bcf86cd799439011''"

definition id_b :: string where
  "id_b = ''507f191e810c19729de860ea''"

definition morning :: datetime where
  "morning = \<lparr>year = 2025, month = 1, day = 1, hour = 9, minute = 30, second = 0,
              microsecond = 123456\<rparr>"

text \<open>A clock that advances by four microseconds between two readings.\<close>

definition ticking :: "nat \<Rightarrow> datetime" where
  "ticking k = morning\<lparr>microsecond := 123456 + 4 * k\<rparr>"

definition milk :: TaskCreate where
  "milk = \<lparr>c_title = ''Buy milk'', c_dueDate = ''2025-01-01T00:00:00'', c_priority = ''low'',
           c_category = ''personal'', c_notificationId = None\<rparr>"

definition doc_a :: document where
  "doc_a = \<lparr>oid = OID ''507f1f77bcf86cd799439011'',
            keys = \<lparr>k_id = None, k_title = ''Write report'', k_dueDate = ''2025-01-03T17:00:00'',
                    k_priority = ''high'', k_category = ''work'', k_completed = True,
                    k_createdAt = ''2024-12-30T08:15:00.250000'',
                    k_updatedAt = Some ''2024-12-31T10:00:00.500000'',
                    k_userId = None, k_notificationId = None\<rparr>\<rparr>"

definition doc_b :: document where
  "doc_b = \<lparr>oid = OID ''507f191e810c19729de860ea'',
            keys = \<lparr>k_id = None, k_title = ''Call home'', k_dueDate = ''2024-12-31T20:00:00'',
                    k_priority = ''low'', k_category = ''personal'', k_completed = False,
                    k_createdAt = ''2025-01-01T07:45:10.000500'',
                    k_updatedAt = Some ''2025-01-01T07:45:10.000502'',
                    k_userId = None, k_notificationId = None\<rparr>\<rparr>"

definition task_1 :: Task where
  "task_1 = \<lparr>t_id = None, t_title = ''Sync Task 1'', t_dueDate = ''2025-01-02T09:00:00'',
             t_priority = ''high'', t_category = ''work'', t_completed = False,
             t_createdAt = ''2025-01-01T08:00:00'', t_updatedAt = None, t_userId = None,
             t_notificationId = None\<rparr>"

definition task_2 :: Task where
  "task_2 = \<lparr>t_id = None, t_title = ''Sync Task 2'', t_dueDate = ''2025-01-03T09:00:00'',
             t_priority = ''medium'', t_category = ''personal'', t_completed = True,
             t_createdAt = ''2025-01-01T08:00:01'', t_updatedAt = None, t_userId = None,
             t_notificationId = None\<rparr>"

text \<open>A task that carries the identifier of \<open>doc_a\<close>.\<close>

definition task_3 :: Task where
  "task_3 = \<lparr>t_id = Some ''507f1f77bcf86cd799439011'', t_title = ''Sync Task 3'',
             t_dueDate = ''2025-01-04T09:00:00'', t_priority = ''low'', t_category = ''study'',
             t_completed = False, t_createdAt = ''2025-01-01T08:00:02'', t_updatedAt = None,
             t_userId = None, t_notificationId = None\<rparr>"

definition title_only :: TaskUpdate where
  "title_only = \<lparr>u_title = Some ''Updated'', u_dueDate = None, u_priority = None,
                 u_category = None, u_completed = None, u_notificationId = None\<rparr>"

text \<open>
  A clock that passes midnight between the first and the second round of the loop of
  \<^verbatim>\<open>get_stats\<close>: readings 0 to 7 are in the last second of 2025-01-01, the later ones in
  the first second of 2025-01-02.
\<close>

definition midnight :: "nat \<Rightarrow> datetime" where
  "midnight k =
     (if k \<le> 7
      then \<lparr>year = 2025, month = 1, day = 1, hour = 23, minute = 59, second = 59,
            microsecond = 999990 + k\<rparr>
      else \<lparr>year = 2025, month = 1, day = 2, hour = 0, minute = 0, second = 0,
            microsecond = k\<rparr>)"

text \<open>A document whose \<open>createdAt\<close> separates date and time by a space.\<close>

definition doc_c :: document where
  "doc_c = \<lparr>oid = OID ''507f191e810c19729de860eb'',
            keys = \<lparr>k_id = Some None, k_title = ''Read paper'', k_dueDate = ''2025-01-05T12:00:00'',
                    k_priority = ''medium'', k_category = ''study'', k_completed = False,
                    k_createdAt = ''2025-01-01 08:00:00'',
                    k_updatedAt = Some ''2025-01-01T08:00:03.000100'',
                    k_userId = None, k_notificationId = None\<rparr>\<rparr>"

text \<open>Tasks whose \<open>id\<close> is malformed, and empty.\<close>

definition task_4 :: Task where
  "task_4 = \<lparr>t_id = Some ''invalid_task_id_123'', t_title = ''Sync Task 4'',
             t_dueDate = ''2025-01-05T09:00:00'', t_priority = ''medium'', t_category = ''work'',
             t_completed = True, t_createdAt = ''2025-01-01T08:00:03'', t_updatedAt = None,
             t_userId = None, t_notificationId = None\<rparr>"

definition task_5 :: Task where
  "task_5 = \<lparr>t_id = Some [], t_title = ''Sync Task 5'',
             t_dueDate = ''2025-01-06T09:00:00'', t_priority = ''low'', t_category = ''personal'',
             t_completed = False, t_createdAt = ''2025-01-01T08:00:04'', t_updatedAt = None,
             t_userId = None, t_notificationId = None\<rparr>"

section \<open>Properties of the task store facade\<close>

subsection \<open>Identifiers\<close>

lemma hexchar_lower: "lower_hexdigit (hexchar k)"
proof -
  have "k mod 16 < length ''0123456789abcdef''" by simp
  then show ?thesis unfolding hexchar_def lower_hexdigit_def by (rule nth_mem)
qed

lemma length_hexn: "length (hexn k n) = k"
  by (induction k arbitrary: n) simp_all

lemma hexn_lower: "list_all lower_hexdigit (hexn k n)"
  by (induction k arbitrary: n) (simp_all add: hexchar_lower)

lemma lower_hex_id: "lower_hexdigit c \<Longrightarrow> lower_hex c = c"
  unfolding lower_hexdigit_def lower_hex_def by auto

lemma lower_is_hex: "lower_hexdigit c \<Longrightarrow> is_hex c"
  unfolding lower_hexdigit_def is_hex_def by auto

lemma lower_not_space: "lower_hexdigit c \<Longrightarrow> \<not> is_space c"
  unfolding lower_hexdigit_def is_space_def by auto

lemma fromhex_lower:
  "list_all lower_hexdigit s \<Longrightarrow> even (length s) \<Longrightarrow> fromhex s = Some s"
  by (induction s rule: fromhex.induct)
    (simp_all add: lower_not_space lower_is_hex lower_hex_id)

lemma ObjectId_lower:
  assumes "length s = 24" and "list_all lower_hexdigit s"
  shows "ObjectId s = Inr (OID s)"
  using assms fromhex_lower[of s] by (simp add: ObjectId_def)

lemma ObjectId_hexn: "ObjectId (hexn 24 n) = Inr (new_ObjectId n)"
  unfolding new_ObjectId_def by (rule ObjectId_lower) (simp_all add: length_hexn hexn_lower)

lemma is_valid_hexn: "is_valid (hexn 24 n)"
  by (simp add: is_valid_def ObjectId_hexn)

lemma is_valid_iff: "is_valid s \<longleftrightarrow> (\<exists>i. ObjectId s = Inr i)"
  by (auto simp: is_valid_def split: sum.splits)

subsection \<open>The store's primitives\<close>

lemma find_one_None_iff: "find_one i db = None \<longleftrightarrow> i \<notin> set (map oid db)"
  by (auto simp: find_one_def find_None_iff)

lemma find_one_append_new:
  "i \<notin> set (map oid db) \<Longrightarrow> find_one i (db @ [\<lparr>oid = i, keys = d\<rparr>]) = Some \<lparr>oid = i, keys = d\<rparr>"
  by (induction db) (auto simp: find_one_def)

lemma insert_one_new:
  "(case given of Some g \<Rightarrow> g | None \<Rightarrow> generated) = i \<Longrightarrow> i \<notin> set (map oid db) \<Longrightarrow>
   insert_one given generated d db = (Inr i, db @ [\<lparr>oid = i, keys = d\<rparr>])"
  by (auto simp: insert_one_def)

lemma update_one_found:
  "find_one i db = Some x \<Longrightarrow>
   fst (update_one i f db) = 1 \<and> find_one i (snd (update_one i f db)) = Some (x\<lparr>keys := f (keys x)\<rparr>)"
  by (induction db) (auto simp: find_one_def split: prod.splits if_splits)

lemma update_one_missing: "find_one i db = None \<Longrightarrow> update_one i f db = (0, db)"
  by (induction db) (auto simp: find_one_def split: prod.splits if_splits)

lemma delete_one_missing: "find_one i db = None \<Longrightarrow> delete_one i db = (0, db)"
  by (induction db) (auto simp: find_one_def split: prod.splits if_splits)

lemma delete_one_removes:
  "distinct (map oid db) \<Longrightarrow> find_one i (snd (delete_one i db)) = None"
proof (induction db)
  case Nil
  then show ?case by (simp add: find_one_def)
next
  case (Cons a db)
  show ?case
  proof (cases "oid a = i")
    case True
    with Cons.prems have "i \<notin> set (map oid db)" by auto
    with True show ?thesis by (simp add: find_one_None_iff)
  next
    case False
    from Cons have "find_one i (snd (delete_one i db)) = None" by simp
    with False show ?thesis by (auto simp: find_one_def split: prod.splits)
  qed
qed

lemma Tasks_of_map:
  "Tasks_of xs = Inr ts \<Longrightarrow> ts = map (\<lambda>x. (task_helper x)\<lparr>t_id := None\<rparr>) xs"
  by (induction xs arbitrary: ts) (auto simp: Task_of_def split: sum.splits if_splits)

lemma Tasks_of_valid:
  "list_all (\<lambda>x. valid_Task (task_helper x)) xs \<Longrightarrow>
   Tasks_of xs = Inr (map (\<lambda>x. (task_helper x)\<lparr>t_id := None\<rparr>) xs)"
  by (induction xs) (simp_all add: Task_of_def)

subsection \<open>Evaluations on the example data\<close>

lemma ObjectId_a: "ObjectId ''507f1f77bcf86cd799439011'' = Inr (OID ''507f1f77bcf86cd799439011'')"
  by code_simp

lemma ObjectId_zero: "ObjectId ''000000000000000000000000'' = Inr (OID ''000000000000000000000000'')"
  by code_simp

lemma ObjectId_test_id: "ObjectId ''invalid_task_id_123'' = Inl InvalidId"
  by code_simp

lemma ObjectId_blanks:
  "ObjectId ''507f1f77bcf86cd79943  11'' = Inr (OID ''507f1f77bcf86cd7994311'')"
  by code_simp

lemma ObjectId_empty: "ObjectId [] = Inl InvalidId"
  by (simp add: ObjectId_def)

lemma hexn_0: "hexn 24 0 = ''000000000000000000000000''"
  by code_simp

lemma hexn_1: "hexn 24 (Suc 0) = ''000000000000000000000001''"
  by code_simp

lemma isoformat_ticking_0: "isoformat (ticking 0) = ''2025-01-01T09:30:00.123456''"
  by (simp add: isoformat_def strftime_date_def isoformat_time_def ticking_def morning_def
      pad2_def pad4_def pad6_def digit_def)

lemma isoformat_ticking_1: "isoformat (ticking (Suc 0)) = ''2025-01-01T09:30:00.123460''"
  by (simp add: isoformat_def strftime_date_def isoformat_time_def ticking_def morning_def
      pad2_def pad4_def pad6_def digit_def)

lemma valid_doc_a: "valid_Task (task_helper doc_a)"
  by (simp add: valid_Task_def task_helper_def doc_a_def priority_pattern_def category_pattern_def)

lemma valid_doc_b: "valid_Task (task_helper doc_b)"
  by (simp add: valid_Task_def task_helper_def doc_b_def priority_pattern_def category_pattern_def)

subsection \<open>Update\<close>

text \<open>
  C8. For every well-formed id, an Update whose partial body supplies no fields fails
  with 400 (``No valid update data provided'') and leaves the collection, hence the stored
  record, as it was.
\<close>

theorem update_empty_partial_rejected:
  "is_valid task_id \<Longrightarrow>
   update_task clk task_id
     \<lparr>u_title = None, u_dueDate = None, u_priority = None, u_category = None,
      u_completed = None, u_notificationId = None\<rparr> db
   = (Inl (HTTPException 400 (Detail ''No valid update data provided'')), db)"
  by (simp add: update_task_def no_update_data_def)

theorem update_empty_partial_rejected_witness:
  "is_valid id_a \<and>
   update_task ticking id_a
     \<lparr>u_title = None, u_dueDate = None, u_priority = None, u_category = None,
      u_completed = None, u_notificationId = None\<rparr> [doc_a]
   = (Inl (HTTPException 400 (Detail ''No valid update data provided'')), [doc_a])"
proof -
  have v: "is_valid id_a" by (simp add: id_a_def is_valid_def ObjectId_a)
  show ?thesis
    using update_empty_partial_rejected[OF v, of ticking "[doc_a]"] v by (intro conjI)
qed

text \<open>
  C10. An Update whose only supplied field is \<open>completed = false\<close> is applied to the record
  the id names: the stored document and the response have \<open>completed = false\<close> and the
  \<open>updatedAt\<close> of the handler's clock reading, and are otherwise as before (the response
  carries no id: the response model leaves it None); it is not rejected as an empty
  partial.
\<close>

theorem update_completed_false_applied:
  assumes "ObjectId task_id = Inr i" and "find_one i db = Some x" and "valid_Task (task_helper x)"
  shows "fst (update_task clk task_id
            \<lparr>u_title = None, u_dueDate = None, u_priority = None, u_category = None,
             u_completed = Some False, u_notificationId = None\<rparr> db)
         = Inr ((task_helper x)\<lparr>t_id := None, t_completed := False,
                                 t_updatedAt := Some (isoformat (clk 0))\<rparr>)
       \<and> find_one i (snd (update_task clk task_id
            \<lparr>u_title = None, u_dueDate = None, u_priority = None, u_category = None,
             u_completed = Some False, u_notificationId = None\<rparr> db))
         = Some (x\<lparr>keys := (keys x)\<lparr>k_completed := False, k_updatedAt := Some (isoformat (clk 0))\<rparr>\<rparr>)"
proof -
  let ?u = "\<lparr>u_title = None, u_dueDate = None, u_priority = None, u_category = None,
             u_completed = Some False, u_notificationId = None\<rparr>"
  let ?f = "set_update_data ?u (isoformat (clk 0))"
  have f: "?f (keys x) = (keys x)\<lparr>k_completed := False, k_updatedAt := Some (isoformat (clk 0))\<rparr>"
    by (simp add: set_update_data_def)
  have v: "is_valid task_id" using assms(1) by (simp add: is_valid_iff)
  obtain n db' where u: "update_one i ?f db = (n, db')" by (cases "update_one i ?f db")
  with update_one_found[OF assms(2), of ?f]
  have n: "n = 1" and found: "find_one i db' = Some (x\<lparr>keys := ?f (keys x)\<rparr>)" by simp_all
  have t: "(task_helper (x\<lparr>keys := ?f (keys x)\<rparr>))\<lparr>t_id := None\<rparr>
           = (task_helper x)\<lparr>t_id := None, t_completed := False,
                               t_updatedAt := Some (isoformat (clk 0))\<rparr>"
    by (simp add: task_helper_def set_update_data_def)
  have vt: "valid_Task (task_helper (x\<lparr>keys := ?f (keys x)\<rparr>))"
    using assms(3) by (simp add: valid_Task_def task_helper_def set_update_data_def)
  have "update_task clk task_id ?u db
        = (Inr ((task_helper x)\<lparr>t_id := None, t_completed := False,
                                  t_updatedAt := Some (isoformat (clk 0))\<rparr>), db')"
    using v assms(1) u n found t vt
    by (simp add: update_task_def no_update_data_def Task_of_def)
  with found f show ?thesis by simp
qed

theorem update_completed_false_applied_witness:
  "ObjectId id_a = Inr (OID id_a) \<and> find_one (OID id_a) [doc_b, doc_a] = Some doc_a \<and>
   valid_Task (task_helper doc_a) \<and>
   fst (update_task ticking id_a
          \<lparr>u_title = None, u_dueDate = None, u_priority = None, u_category = None,
           u_completed = Some False, u_notificationId = None\<rparr> [doc_b, doc_a])
   = Inr \<lparr>t_id = None, t_title = ''Write report'',
          t_dueDate = ''2025-01-03T17:00:00'',
          t_priority = ''high'', t_category = ''work'', t_completed = False,
          t_createdAt = ''2024-12-30T08:15:00.250000'',
          t_updatedAt = Some ''2025-01-01T09:30:00.123456'',
          t_userId = None, t_notificationId = None\<rparr> \<and>
   find_one (OID id_a) (snd (update_task ticking id_a
          \<lparr>u_title = None, u_dueDate = None, u_priority = None, u_category = None,
           u_completed = Some False, u_notificationId = None\<rparr> [doc_b, doc_a]))
   = Some \<lparr>oid = OID ''507f1f77bcf86cd799439011'',
           keys = \<lparr>k_id = None, k_title = ''Write report'', k_dueDate = ''2025-01-03T17:00:00'',
                   k_priority = ''high'', k_category = ''work'', k_completed = False,
                   k_createdAt = ''2024-12-30T08:15:00.250000'',
                   k_updatedAt = Some ''2025-01-01T09:30:00.123456'',
                   k_userId = None, k_notificationId = None\<rparr>\<rparr>"
proof -
  have o: "ObjectId id_a = Inr (OID id_a)" by (simp add: id_a_def ObjectId_a)
  have f: "find_one (OID id_a) [doc_b, doc_a] = Some doc_a"
    by (simp add: find_one_def doc_a_def doc_b_def id_a_def)
  have e: "(task_helper doc_a)\<lparr>t_id := None, t_completed := False,
                                t_updatedAt := Some (isoformat (ticking 0))\<rparr>
     = \<lparr>t_id = None, t_title = ''Write report'',
          t_dueDate = ''2025-01-03T17:00:00'',
          t_priority = ''high'', t_category = ''work'', t_completed = False,
          t_createdAt = ''2024-12-30T08:15:00.250000'',
          t_updatedAt = Some ''2025-01-01T09:30:00.123456'',
          t_userId = None, t_notificationId = None\<rparr>"
    by (simp add: task_helper_def doc_a_def isoformat_ticking_0)
  have d: "doc_a\<lparr>keys := (keys doc_a)\<lparr>k_completed := False,
                                        k_updatedAt := Some (isoformat (ticking 0))\<rparr>\<rparr>
     = \<lparr>oid = OID ''507f1f77bcf86cd799439011'',
           keys = \<lparr>k_id = None, k_title = ''Write report'', k_dueDate = ''2025-01-03T17:00:00'',
                   k_priority = ''high'', k_category = ''work'', k_completed = False,
                   k_createdAt = ''2024-12-30T08:15:00.250000'',
                   k_updatedAt = Some ''2025-01-01T09:30:00.123456'',
                   k_userId = None, k_notificationId = None\<rparr>\<rparr>"
    by (simp add: doc_a_def isoformat_ticking_0)
  note r = update_completed_false_applied[OF o f valid_doc_a, of ticking, unfolded e d]
  show ?thesis
    using o f valid_doc_a r[THEN conjunct1] r[THEN conjunct2] by (intro conjI)
qed

subsection \<open>Identifier checks of get, update and delete\<close>

text \<open>
  C7, as the code has it. An id that is not well-formed (one the constructor of ObjectId
  refuses) makes Get, Update and Delete fail with 400 whatever the collection holds, and
  the collection is returned as it was: the check precedes every store call. A well-formed id that matches no record makes Get and Delete fail with 404,
  and Update too when its partial supplies a field (an empty partial is refused with 400
  before the store is asked). A second Delete of the same id fails with 404.
\<close>

theorem id_checks:
  "(\<not> is_valid task_id \<longrightarrow>
      get_task task_id db = Inl (HTTPException 400 (Detail ''Invalid task ID format'')) \<and>
      update_task clk task_id u db = (Inl (HTTPException 400 (Detail ''Invalid task ID format'')), db) \<and>
      delete_task task_id db = (Inl (HTTPException 400 (Detail ''Invalid task ID format'')), db)) \<and>
   (ObjectId task_id = Inr i \<and> find_one i db = None \<longrightarrow>
      get_task task_id db = Inl (HTTPException 404 (Detail ''Task not found'')) \<and>
      (\<not> no_update_data u \<longrightarrow>
         update_task clk task_id u db = (Inl (HTTPException 404 (Detail ''Task not found'')), db)) \<and>
      delete_task task_id db = (Inl (HTTPException 404 (Detail ''Task not found'')), db)) \<and>
   (is_valid task_id \<and> distinct (map oid db) \<longrightarrow>
      fst (delete_task task_id (snd (delete_task task_id db)))
      = Inl (HTTPException 404 (Detail ''Task not found'')))"
proof (intro conjI impI)
  assume "\<not> is_valid task_id"
  then show "get_task task_id db = Inl (HTTPException 400 (Detail ''Invalid task ID format''))"
    and "update_task clk task_id u db = (Inl (HTTPException 400 (Detail ''Invalid task ID format'')), db)"
    and "delete_task task_id db = (Inl (HTTPException 400 (Detail ''Invalid task ID format'')), db)"
    by (simp_all add: get_task_def update_task_def delete_task_def)
next
  assume a: "ObjectId task_id = Inr i \<and> find_one i db = None"
  then have v: "is_valid task_id" by (simp add: is_valid_iff)
  from a v show "get_task task_id db = Inl (HTTPException 404 (Detail ''Task not found''))"
    by (simp add: get_task_def)
  from a v show "delete_task task_id db = (Inl (HTTPException 404 (Detail ''Task not found'')), db)"
    by (simp add: delete_task_def delete_one_missing)
  assume "\<not> no_update_data u"
  with a v show "update_task clk task_id u db = (Inl (HTTPException 404 (Detail ''Task not found'')), db)"
    by (simp add: update_task_def update_one_missing)
next
  assume a: "is_valid task_id \<and> distinct (map oid db)"
  then obtain i where i: "ObjectId task_id = Inr i" by (auto simp: is_valid_iff)
  have gone: "find_one i (snd (delete_one i db)) = None"
    using a by (simp add: delete_one_removes)
  have "snd (delete_task task_id db) = snd (delete_one i db)"
    using a i by (simp add: delete_task_def split: prod.splits)
  with gone a i show "fst (delete_task task_id (snd (delete_task task_id db)))
      = Inl (HTTPException 404 (Detail ''Task not found''))"
    by (simp add: delete_task_def delete_one_missing)
qed

theorem id_checks_witness:
  "\<not> is_valid ''invalid_task_id_123'' \<and>
   get_task ''invalid_task_id_123'' [doc_a] = Inl (HTTPException 400 (Detail ''Invalid task ID format'')) \<and>
   update_task ticking ''invalid_task_id_123'' title_only [doc_a]
     = (Inl (HTTPException 400 (Detail ''Invalid task ID format'')), [doc_a]) \<and>
   delete_task ''invalid_task_id_123'' [doc_a]
     = (Inl (HTTPException 400 (Detail ''Invalid task ID format'')), [doc_a]) \<and>
   ObjectId id_a = Inr (OID id_a) \<and> find_one (OID id_a) [doc_b] = None \<and>
   get_task id_a [doc_b] = Inl (HTTPException 404 (Detail ''Task not found'')) \<and>
   \<not> no_update_data title_only \<and>
   update_task ticking id_a title_only [doc_b] = (Inl (HTTPException 404 (Detail ''Task not found'')), [doc_b]) \<and>
   delete_task id_a [doc_b] = (Inl (HTTPException 404 (Detail ''Task not found'')), [doc_b]) \<and>
   is_valid id_a \<and> distinct (map oid [doc_a, doc_b]) \<and>
   fst (delete_task id_a [doc_a, doc_b])
     = Inr \<lparr>message = ''Task deleted successfully'', taskId = ''507f1f77bcf86cd799439011''\<rparr> \<and>
   fst (delete_task id_a (snd (delete_task id_a [doc_a, doc_b])))
     = Inl (HTTPException 404 (Detail ''Task not found'')) \<and>
   ObjectId ''507f1f77bcf86cd79943  11'' = Inr (OID ''507f1f77bcf86cd7994311'') \<and>
   find_one (OID ''507f1f77bcf86cd7994311'') [doc_a, doc_b] = None \<and>
   get_task ''507f1f77bcf86cd79943  11'' [doc_a, doc_b]
     = Inl (HTTPException 404 (Detail ''Task not found'')) \<and>
   delete_task ''507f1f77bcf86cd79943  11'' [doc_a, doc_b]
     = (Inl (HTTPException 404 (Detail ''Task not found'')), [doc_a, doc_b])"
proof -
  have bad: "\<not> is_valid ''invalid_task_id_123''"
    by (simp add: is_valid_def ObjectId_test_id)
  have o: "ObjectId id_a = Inr (OID id_a)" by (simp add: id_a_def ObjectId_a)
  have v: "is_valid id_a" using o by (simp add: is_valid_iff)
  have none: "find_one (OID id_a) [doc_b] = None"
    by (simp add: find_one_def doc_b_def id_a_def)
  have nonempty: "\<not> no_update_data title_only"
    by (simp add: no_update_data_def title_only_def)
  have d: "distinct (map oid [doc_a, doc_b])"
    by (simp add: doc_a_def doc_b_def)
  have first: "fst (delete_task id_a [doc_a, doc_b])
     = Inr \<lparr>message = ''Task deleted successfully'', taskId = ''507f1f77bcf86cd799439011''\<rparr>"
    using v o by (simp add: delete_task_def doc_a_def id_a_def)
  note malformed = id_checks[of "''invalid_task_id_123''" "[doc_a]" ticking title_only "OID id_a",
      THEN conjunct1, rule_format, OF bad]
  note missing = id_checks[of id_a "[doc_b]" ticking title_only "OID id_a",
      THEN conjunct2, THEN conjunct1, rule_format, OF conjI[OF o none]]
  note twice = id_checks[of id_a "[doc_a, doc_b]" ticking title_only "OID id_a",
      THEN conjunct2, THEN conjunct2, rule_format, OF conjI[OF v d]]
  have none': "find_one (OID ''507f1f77bcf86cd7994311'') [doc_a, doc_b] = None"
    by (simp add: find_one_def doc_a_def doc_b_def)
  note blanks = id_checks[of "''507f1f77bcf86cd79943  11''" "[doc_a, doc_b]" ticking title_only
      "OID ''507f1f77bcf86cd7994311''",
      THEN conjunct2, THEN conjunct1, rule_format, OF conjI[OF ObjectId_blanks none']]
  show ?thesis
    using bad malformed o none missing nonempty v d first twice ObjectId_blanks none' blanks
    by simp
qed

text \<open>
  The claim as stated fails for Update: with a well-formed id that matches no record and an
  empty partial, the answer is 400, not 404.
\<close>

theorem update_missing_empty_partial_counterexample:
  "ObjectId ''507f1f77bcf86cd799439011'' = Inr (OID ''507f1f77bcf86cd799439011'') \<and>
   find_one (OID ''507f1f77bcf86cd799439011'') [] = None \<and>
   fst (update_task ticking ''507f1f77bcf86cd799439011''
     \<lparr>u_title = None, u_dueDate = None, u_priority = None, u_category = None,
      u_completed = None, u_notificationId = None\<rparr> [])
   = Inl (HTTPException 400 (Detail ''No valid update data provided''))"
  by (simp add: ObjectId_a find_one_def update_task_def is_valid_def no_update_data_def)

subsection \<open>List\<close>

lemma tasks_query_ignored_category:
  "c \<notin> set [''work'', ''personal'', ''study''] \<Longrightarrow> tasks_query (Some c) p b = tasks_query None p b"
  by (rule ext) (simp add: tasks_query_def)

lemma tasks_query_ignored_priority:
  "q \<notin> set [''high'', ''medium'', ''low''] \<Longrightarrow> tasks_query c (Some q) b = tasks_query c None b"
  by (rule ext) (simp add: tasks_query_def)

lemma get_tasks_Inr:
  "get_tasks c p b limit db = Inr ts \<Longrightarrow>
   ts = map (\<lambda>x. (task_helper x)\<lparr>t_id := None\<rparr>)
          (take (nat limit) (rev (sort_key (\<lambda>x. k_createdAt (keys x)) (filter (tasks_query c p b) db))))"
  by (auto simp: get_tasks_def find_sorted_def split: sum.splits if_splits dest: Tasks_of_map)

lemma get_tasks_succeeds:
  assumes "0 \<le> limit" and "list_all (\<lambda>x. valid_Task (task_helper x)) db"
  shows "get_tasks c p b limit db =
     Inr (map (\<lambda>x. (task_helper x)\<lparr>t_id := None\<rparr>)
            (take (nat limit) (rev (sort_key (\<lambda>x. k_createdAt (keys x)) (filter (tasks_query c p b) db)))))"
proof -
  let ?xs = "take (nat limit) (rev (sort_key (\<lambda>x. k_createdAt (keys x)) (filter (tasks_query c p b) db)))"
  have "set ?xs \<subseteq> set db"
    by (rule subset_trans[OF set_take_subset]) auto
  with assms(2) have "list_all (\<lambda>x. valid_Task (task_helper x)) ?xs"
    unfolding list_all_iff by blast
  then have "Tasks_of ?xs = Inr (map (\<lambda>x. (task_helper x)\<lparr>t_id := None\<rparr>) ?xs)"
    by (rule Tasks_of_valid)
  with assms(1) show ?thesis by (simp add: get_tasks_def find_sorted_def)
qed

text \<open>
  C9. With a category filter among work, personal and study, every task List returns has
  that category; a category filter outside them changes nothing: the result is that of
  the same request without the filter. The same holds for the priority filter and high,
  medium, low. With a limit that is not negative, over documents that satisfy the Task
  patterns, List returns a list and no error, whatever the filter values.
\<close>

theorem list_filters:
  "(c \<in> set [''work'', ''personal'', ''study''] \<and> get_tasks (Some c) p b limit db = Inr ts \<longrightarrow>
      list_all (\<lambda>t. t_category t = c) ts) \<and>
   (c \<notin> set [''work'', ''personal'', ''study''] \<longrightarrow>
      get_tasks (Some c) p b limit db = get_tasks None p b limit db) \<and>
   (q \<in> set [''high'', ''medium'', ''low''] \<and> get_tasks cat (Some q) b limit db = Inr ts' \<longrightarrow>
      list_all (\<lambda>t. t_priority t = q) ts') \<and>
   (q \<notin> set [''high'', ''medium'', ''low''] \<longrightarrow>
      get_tasks cat (Some q) b limit db = get_tasks cat None b limit db) \<and>
   (0 \<le> limit \<and> list_all (\<lambda>x. valid_Task (task_helper x)) db \<longrightarrow>
      (\<exists>found. get_tasks cat p b limit db = Inr found))"
proof (intro conjI impI)
  assume a: "c \<in> set [''work'', ''personal'', ''study''] \<and> get_tasks (Some c) p b limit db = Inr ts"
  show "list_all (\<lambda>t. t_category t = c) ts"
    unfolding list_all_iff
  proof
    fix t assume "t \<in> set ts"
    with get_tasks_Inr[of "Some c" p b limit db ts] a
    obtain x where "x \<in> set (filter (tasks_query (Some c) p b) db)"
      and "t = (task_helper x)\<lparr>t_id := None\<rparr>"
      by (auto dest!: in_set_takeD)
    with a show "t_category t = c"
      by (auto simp: tasks_query_def task_helper_def)
  qed
next
  assume "c \<notin> set [''work'', ''personal'', ''study'']"
  then have "tasks_query (Some c) p b = tasks_query None p b"
    by (rule tasks_query_ignored_category)
  then show "get_tasks (Some c) p b limit db = get_tasks None p b limit db"
    unfolding get_tasks_def by simp
next
  assume a: "q \<in> set [''high'', ''medium'', ''low''] \<and> get_tasks cat (Some q) b limit db = Inr ts'"
  show "list_all (\<lambda>t. t_priority t = q) ts'"
    unfolding list_all_iff
  proof
    fix t assume "t \<in> set ts'"
    with get_tasks_Inr[of cat "Some q" b limit db ts'] a
    obtain x where "x \<in> set (filter (tasks_query cat (Some q) b) db)"
      and "t = (task_helper x)\<lparr>t_id := None\<rparr>"
      by (auto dest!: in_set_takeD)
    with a show "t_priority t = q"
      by (auto simp: tasks_query_def task_helper_def)
  qed
next
  assume "q \<notin> set [''high'', ''medium'', ''low'']"
  then have "tasks_query cat (Some q) b = tasks_query cat None b"
    by (rule tasks_query_ignored_priority)
  then show "get_tasks cat (Some q) b limit db = get_tasks cat None b limit db"
    unfolding get_tasks_def by simp
next
  assume "0 \<le> limit \<and> list_all (\<lambda>x. valid_Task (task_helper x)) db"
  then show "\<exists>found. get_tasks cat p b limit db = Inr found"
    using get_tasks_succeeds by blast
qed

theorem list_filters_witness:
  "''work'' \<in> set [''work'', ''personal'', ''study''] \<and>
   get_tasks (Some ''work'') None (Some True) 100 [doc_a, doc_b] = Inr [(task_helper doc_a)\<lparr>t_id := None\<rparr>] \<and>
   list_all (\<lambda>t. t_category t = ''work'') [(task_helper doc_a)\<lparr>t_id := None\<rparr>] \<and>
   ''urgent'' \<notin> set [''work'', ''personal'', ''study''] \<and>
   get_tasks (Some ''urgent'') None (Some True) 100 [doc_a, doc_b]
     = get_tasks None None (Some True) 100 [doc_a, doc_b] \<and>
   ''low'' \<in> set [''high'', ''medium'', ''low''] \<and>
   get_tasks None (Some ''low'') (Some True) 100 [doc_a, doc_b] = Inr [] \<and>
   list_all (\<lambda>t. t_priority t = ''low'') [] \<and>
   ''urgent'' \<notin> set [''high'', ''medium'', ''low''] \<and>
   get_tasks None (Some ''urgent'') (Some True) 100 [doc_a, doc_b]
     = get_tasks None None (Some True) 100 [doc_a, doc_b] \<and>
   (0::int) \<le> 100 \<and> list_all (\<lambda>x. valid_Task (task_helper x)) [doc_a, doc_b] \<and>
   (\<exists>found. get_tasks None None (Some True) 100 [doc_a, doc_b] = Inr found)"
proof -
  have v: "list_all (\<lambda>x. valid_Task (task_helper x)) [doc_a, doc_b]"
    by (simp add: valid_doc_a valid_doc_b)
  have w: "get_tasks (Some ''work'') None (Some True) 100 [doc_a, doc_b] = Inr [(task_helper doc_a)\<lparr>t_id := None\<rparr>]"
    by (subst get_tasks_succeeds[OF _ v]) (simp_all add: tasks_query_def doc_a_def doc_b_def)
  have l: "get_tasks None (Some ''low'') (Some True) 100 [doc_a, doc_b] = Inr []"
    by (subst get_tasks_succeeds[OF _ v]) (simp_all add: tasks_query_def doc_a_def doc_b_def)
  have c1: "''work'' \<in> set [''work'', ''personal'', ''study'']" by simp
  have c2: "''urgent'' \<notin> set [''work'', ''personal'', ''study'']" by simp
  have c3: "''low'' \<in> set [''high'', ''medium'', ''low'']" by simp
  have c4: "''urgent'' \<notin> set [''high'', ''medium'', ''low'']" by simp
  have c5: "(0::int) \<le> 100" by simp
  note th = list_filters[where c = "''work''" and p = None and b = "Some True" and limit = 100
      and db = "[doc_a, doc_b]" and ts = "[(task_helper doc_a)\<lparr>t_id := None\<rparr>]" and q = "''low''" and cat = None
      and ts' = "[]"]
  note th' = list_filters[where c = "''urgent''" and p = None and b = "Some True" and limit = 100
      and db = "[doc_a, doc_b]" and q = "''urgent''" and cat = None]
  have r1: "list_all (\<lambda>t. t_category t = ''work'') [(task_helper doc_a)\<lparr>t_id := None\<rparr>]"
    using th[THEN conjunct1, rule_format, OF conjI[OF c1 w]] .
  have r2: "get_tasks (Some ''urgent'') None (Some True) 100 [doc_a, doc_b]
     = get_tasks None None (Some True) 100 [doc_a, doc_b]"
    using th'[THEN conjunct2, THEN conjunct1, rule_format, OF c2] .
  have r3: "list_all (\<lambda>t. t_priority t = ''low'') []"
    using th[THEN conjunct2, THEN conjunct2, THEN conjunct1, rule_format, OF conjI[OF c3 l]]
    by simp
  have r4: "get_tasks None (Some ''urgent'') (Some True) 100 [doc_a, doc_b]
     = get_tasks None None (Some True) 100 [doc_a, doc_b]"
    using th'[THEN conjunct2, THEN conjunct2, THEN conjunct2, THEN conjunct1, rule_format, OF c4] .
  have r5: "\<exists>found. get_tasks None None (Some True) 100 [doc_a, doc_b] = Inr found"
    using th[THEN conjunct2, THEN conjunct2, THEN conjunct2, THEN conjunct2, rule_format,
        OF conjI[OF c5 v]] .
  show ?thesis
    using c1 w r1 c2 r2 c3 l r3 c4 r4 c5 v r5 by (intro conjI)
qed

subsection \<open>Create, then get\<close>

text \<open>
  C2, as the code has it. For every valid create input, and an identifier generated by the
  driver that no stored document has, Create succeeds, stores one more document under the
  generated identifier, and a Get of this identifier returns the record Create returned:
  its title, dueDate, priority, category and notificationId are those of the input,
  \<open>completed\<close> is false, \<open>createdAt\<close> is the first reading of the clock and \<open>updatedAt\<close> the
  second one (the \<open>id\<close> of both responses is None).
\<close>

theorem create_then_get:
  assumes "valid_TaskCreate c" and "new_ObjectId (gen 0) \<notin> set (map oid db)"
  shows "\<exists>t db'. create_task clk gen c db = (Inr t, db') \<and>
           map oid db' = map oid db @ [new_ObjectId (gen 0)] \<and>
           get_task (str_oid (new_ObjectId (gen 0))) db' = Inr t \<and>
           t_title t = c_title c \<and> t_dueDate t = c_dueDate c \<and>
           t_priority t = c_priority c \<and> t_category t = c_category c \<and>
           t_notificationId t = c_notificationId c \<and> t_completed t = False \<and>
           t_createdAt t = isoformat (clk 0) \<and> t_updatedAt t = Some (isoformat (clk 1)) \<and>
           t_id t = None"
proof -
  let ?i = "new_ObjectId (gen 0)"
  let ?d = "\<lparr>k_id = None, k_title = c_title c, k_dueDate = c_dueDate c,
             k_priority = c_priority c, k_category = c_category c, k_completed = False,
             k_createdAt = isoformat (clk 0), k_updatedAt = Some (isoformat (clk 1)),
             k_userId = None, k_notificationId = c_notificationId c\<rparr>"
  let ?x = "\<lparr>oid = ?i, keys = ?d\<rparr>"
  let ?db = "db @ [?x]"
  let ?t = "(task_helper ?x)\<lparr>t_id := None\<rparr>"
  have ins: "insert_one None ?i ?d db = (Inr ?i, ?db)"
    using assms(2) by (intro insert_one_new) simp_all
  have found: "find_one ?i ?db = Some ?x"
    using assms(2) by (rule find_one_append_new)
  have valid: "valid_Task (task_helper ?x)"
    using assms(1) by (simp add: valid_Task_def valid_TaskCreate_def task_helper_def)
  have created: "create_task clk gen c db = (Inr ?t, ?db)"
    using ins found valid by (simp add: create_task_def Task_of_def)
  have s: "str_oid ?i = hexn 24 (gen 0)" by (simp add: new_ObjectId_def)
  have got: "get_task (str_oid ?i) ?db = Inr ?t"
    using found valid by (simp add: s get_task_def is_valid_hexn ObjectId_hexn Task_of_def)
  show ?thesis
    using created got by (simp add: task_helper_def)
qed

theorem create_then_get_witness:
  "valid_TaskCreate milk \<and> new_ObjectId 0 \<notin> set (map oid [doc_a]) \<and>
   (\<exists>t db'. create_task ticking (\<lambda>k. 0) milk [doc_a] = (Inr t, db') \<and>
      map oid db' = [OID ''507f1f77bcf86cd799439011'', OID ''000000000000000000000000''] \<and>
      get_task ''000000000000000000000000'' db' = Inr t \<and>
      t_title t = ''Buy milk'' \<and> t_dueDate t = ''2025-01-01T00:00:00'' \<and>
      t_priority t = ''low'' \<and> t_category t = ''personal'' \<and>
      t_notificationId t = None \<and> t_completed t = False \<and>
      t_createdAt t = ''2025-01-01T09:30:00.123456'' \<and>
      t_updatedAt t = Some ''2025-01-01T09:30:00.123460'' \<and> t_id t = None)"
proof -
  have v: "valid_TaskCreate milk"
    by (simp add: valid_TaskCreate_def milk_def priority_pattern_def category_pattern_def)
  have f: "new_ObjectId 0 \<notin> set (map oid [doc_a])"
    by (simp add: new_ObjectId_def hexn_0 doc_a_def)
  have s: "str_oid (new_ObjectId 0) = ''000000000000000000000000''"
    "new_ObjectId 0 = OID ''000000000000000000000000''"
    by (simp_all add: new_ObjectId_def hexn_0)
  have o: "map oid [doc_a] = [OID ''507f1f77bcf86cd799439011'']"
    by (simp add: doc_a_def)
  show ?thesis
    using v f create_then_get[of milk "\<lambda>k. 0" "[doc_a]" ticking, OF v f]
    unfolding s o
    by (simp add: milk_def isoformat_ticking_0 isoformat_ticking_1)
qed

text \<open>
  The claim as stated fails: the two timestamps are two readings of the clock, and a clock
  that moves between them gives a record whose \<open>createdAt\<close> and \<open>updatedAt\<close> differ.
\<close>

theorem create_equal_stamps_counterexample:
  "fst (create_task ticking (\<lambda>k. 0) milk []) =
     Inr \<lparr>t_id = None, t_title = ''Buy milk'',
          t_dueDate = ''2025-01-01T00:00:00'', t_priority = ''low'', t_category = ''personal'',
          t_completed = False, t_createdAt = ''2025-01-01T09:30:00.123456'',
          t_updatedAt = Some ''2025-01-01T09:30:00.123460'', t_userId = None,
          t_notificationId = None\<rparr> \<and>
   map oid (snd (create_task ticking (\<lambda>k. 0) milk [])) = [OID ''000000000000000000000000''] \<and>
   get_task ''000000000000000000000000'' (snd (create_task ticking (\<lambda>k. 0) milk [])) =
     Inr \<lparr>t_id = None, t_title = ''Buy milk'',
          t_dueDate = ''2025-01-01T00:00:00'', t_priority = ''low'', t_category = ''personal'',
          t_completed = False, t_createdAt = ''2025-01-01T09:30:00.123456'',
          t_updatedAt = Some ''2025-01-01T09:30:00.123460'', t_userId = None,
          t_notificationId = None\<rparr> \<and>
   Some ''2025-01-01T09:30:00.123456'' \<noteq> Some ''2025-01-01T09:30:00.123460''"
proof -
  have c: "create_task ticking (\<lambda>k. 0) milk [] =
     (Inr \<lparr>t_id = None, t_title = ''Buy milk'',
          t_dueDate = ''2025-01-01T00:00:00'', t_priority = ''low'', t_category = ''personal'',
          t_completed = False, t_createdAt = ''2025-01-01T09:30:00.123456'',
          t_updatedAt = Some ''2025-01-01T09:30:00.123460'', t_userId = None,
          t_notificationId = None\<rparr>,
      [\<lparr>oid = OID ''000000000000000000000000'',
        keys = \<lparr>k_id = None, k_title = ''Buy milk'', k_dueDate = ''2025-01-01T00:00:00'',
                k_priority = ''low'', k_category = ''personal'', k_completed = False,
                k_createdAt = ''2025-01-01T09:30:00.123456'',
                k_updatedAt = Some ''2025-01-01T09:30:00.123460'',
                k_userId = None, k_notificationId = None\<rparr>\<rparr>])"
    by (simp add: create_task_def insert_one_def new_ObjectId_def hexn_0 find_one_def Task_of_def
        task_helper_def valid_Task_def priority_pattern_def category_pattern_def milk_def
        isoformat_ticking_0 isoformat_ticking_1 Let_def)
  show ?thesis
    unfolding c
    by (simp add: get_task_def is_valid_def ObjectId_zero find_one_def Task_of_def task_helper_def
        valid_Task_def priority_pattern_def category_pattern_def)
qed

subsection \<open>Sync\<close>

text \<open>
  What the loop does with the \<open>id\<close> of a task is what the specification says: the
  identifier is given exactly when the \<open>id\<close> is one the constructor of ObjectId accepts.
\<close>

lemma sync_given_id_eq:
  "sync_given_id task =
     (case t_id task of
        None \<Rightarrow> None
      | Some s \<Rightarrow> (case ObjectId s of Inl e \<Rightarrow> None | Inr i \<Rightarrow> Some i))"
  by (auto simp: sync_given_id_def is_valid_def ObjectId_empty split: option.splits sum.splits)

lemma sync_ids_Cons:
  "sync_ids gen n (task # rest) =
     (case sync_given_id task of Some g \<Rightarrow> g | None \<Rightarrow> new_ObjectId (gen n))
     # sync_ids gen (if sync_given_id task = None then Suc n else n) rest"
  by (simp add: sync_given_id_eq split: option.splits sum.splits)

lemma length_sync_ids: "length (sync_ids gen n tasks) = length tasks"
  by (induction tasks arbitrary: n) (simp_all split: option.splits sum.splits)

lemma task_helper_sync:
  "task_helper \<lparr>oid = i, keys = sync_dict now t\<rparr> = t\<lparr>t_id := Some (str_oid i), t_updatedAt := Some now\<rparr>"
  by (simp add: task_helper_def sync_dict_def)

lemma sync_loop_distinct:
  assumes "distinct (sync_ids gen n tasks)"
    and "set (sync_ids gen n tasks) \<inter> set (map oid db) = {}"
    and "list_all valid_Task tasks"
  shows "sync_loop now gen n tasks db =
     (Inr (map (\<lambda>t. t\<lparr>t_id := None, t_updatedAt := Some now\<rparr>) tasks),
      db @ map2 (\<lambda>i t. \<lparr>oid = i, keys = sync_dict now t\<rparr>) (sync_ids gen n tasks) tasks)"
  using assms
proof (induction tasks arbitrary: n db)
  case Nil
  then show ?case by simp
next
  case (Cons task rest)
  let ?n' = "if sync_given_id task = None then Suc n else n"
  let ?i = "case sync_given_id task of Some g \<Rightarrow> g | None \<Rightarrow> new_ObjectId (gen n)"
  let ?x = "\<lparr>oid = ?i, keys = sync_dict now task\<rparr>"
  note ids = sync_ids_Cons[of gen n task rest]
  from Cons.prems(2) ids have fresh: "?i \<notin> set (map oid db)" by auto
  have ins: "insert_one (sync_given_id task) (new_ObjectId (gen n)) (sync_dict now task) db
             = (Inr ?i, db @ [?x])"
    using fresh by (intro insert_one_new) simp_all
  have found: "find_one ?i (db @ [?x]) = Some ?x"
    using fresh by (rule find_one_append_new)
  have valid: "valid_Task (task_helper ?x)"
    using Cons.prems(3) by (simp add: task_helper_sync valid_Task_def)
  have d: "distinct (sync_ids gen ?n' rest)"
    using Cons.prems(1) ids by simp
  have disj: "set (sync_ids gen ?n' rest) \<inter> set (map oid (db @ [?x])) = {}"
    using Cons.prems(1,2) ids by auto
  have v: "list_all valid_Task rest" using Cons.prems(3) by simp
  note IH = Cons.IH[OF d disj v]
  show ?case
    unfolding ids
    using ins found valid IH
    by (simp add: Task_of_def task_helper_sync)
qed

text \<open>
  C3, as the code has it. For every prior collection and every request whose tasks
  (each within the Task patterns) get pairwise distinct identifiers, Sync returns the
  tasks of the request in order, each with \<open>updatedAt\<close> set to the sync time (and with
  \<open>id\<close> None, as in every response), together with no conflicts and the sync time. The
  collection afterwards holds exactly one document for each task of the request, in
  order, whatever it held before: the identifiers of the documents are those of
  \<open>sync_ids\<close> (the supplied \<open>id\<close> when it is well-formed, a generated one when it is
  malformed, empty or absent), and read back the documents are the tasks returned.
\<close>

theorem sync_replaces:
  assumes "distinct (sync_ids gen 0 (r_tasks req))" and "list_all valid_Task (r_tasks req)"
  shows "\<exists>db'. sync_tasks clk gen req db =
       (Inr \<lparr>s_tasks = map (\<lambda>t. t\<lparr>t_id := None, t_updatedAt := Some (isoformat (clk 0))\<rparr>)
                          (r_tasks req),
             s_conflicts = [],
             s_syncTime = isoformat (clk 0)\<rparr>, db') \<and>
     map oid db' = sync_ids gen 0 (r_tasks req) \<and>
     map (\<lambda>x. (task_helper x)\<lparr>t_id := None\<rparr>) db'
       = map (\<lambda>t. t\<lparr>t_id := None, t_updatedAt := Some (isoformat (clk 0))\<rparr>) (r_tasks req)"
proof -
  let ?now = "isoformat (clk 0)"
  let ?db = "map2 (\<lambda>i t. \<lparr>oid = i, keys = sync_dict ?now t\<rparr>)
               (sync_ids gen 0 (r_tasks req)) (r_tasks req)"
  have l: "length (sync_ids gen 0 (r_tasks req)) = length (r_tasks req)"
    by (rule length_sync_ids)
  have s: "sync_tasks clk gen req db =
       (Inr \<lparr>s_tasks = map (\<lambda>t. t\<lparr>t_id := None, t_updatedAt := Some ?now\<rparr>) (r_tasks req),
             s_conflicts = [], s_syncTime = ?now\<rparr>, ?db)"
    using sync_loop_distinct[OF assms(1) _ assms(2), of "[]" ?now]
    by (simp add: sync_tasks_def delete_many_all_def Let_def)
  have o: "map oid ?db = sync_ids gen 0 (r_tasks req)"
    using l by (intro nth_equalityI) simp_all
  have h: "map (\<lambda>x. (task_helper x)\<lparr>t_id := None\<rparr>) ?db
       = map (\<lambda>t. t\<lparr>t_id := None, t_updatedAt := Some ?now\<rparr>) (r_tasks req)"
    using l by (intro nth_equalityI) (simp_all add: task_helper_sync)
  show ?thesis
    using s o h by blast
qed

lemma hexn_2: "hexn 24 (Suc (Suc 0)) = ''000000000000000000000002''"
  by code_simp

lemma sync_ids_example:
  "sync_ids (\<lambda>k. k) 0 [task_3, task_1, task_4, task_5] =
     [OID ''507f1f77bcf86cd799439011'', OID ''000000000000000000000000'',
      OID ''000000000000000000000001'', OID ''000000000000000000000002'']"
  by (simp add: task_1_def task_3_def task_4_def task_5_def ObjectId_a ObjectId_test_id
      ObjectId_empty new_ObjectId_def hexn_0 hexn_1 hexn_2)

theorem sync_replaces_witness:
  "distinct (sync_ids (\<lambda>k. k) 0 [task_3, task_1, task_4, task_5]) \<and>
   list_all valid_Task [task_3, task_1, task_4, task_5] \<and>
   (\<exists>db'. sync_tasks ticking (\<lambda>k. k)
             \<lparr>r_tasks = [task_3, task_1, task_4, task_5], r_lastSyncTime = None\<rparr> [doc_a, doc_b] =
       (Inr \<lparr>s_tasks =
               [task_3\<lparr>t_id := None, t_updatedAt := Some ''2025-01-01T09:30:00.123456''\<rparr>,
                task_1\<lparr>t_id := None, t_updatedAt := Some ''2025-01-01T09:30:00.123456''\<rparr>,
                task_4\<lparr>t_id := None, t_updatedAt := Some ''2025-01-01T09:30:00.123456''\<rparr>,
                task_5\<lparr>t_id := None, t_updatedAt := Some ''2025-01-01T09:30:00.123456''\<rparr>],
             s_conflicts = [],
             s_syncTime = ''2025-01-01T09:30:00.123456''\<rparr>, db') \<and>
      map oid db' =
        [OID ''507f1f77bcf86cd799439011'', OID ''000000000000000000000000'',
         OID ''000000000000000000000001'', OID ''000000000000000000000002''] \<and>
      map (\<lambda>x. (task_helper x)\<lparr>t_id := None\<rparr>) db' =
        [task_3\<lparr>t_id := None, t_updatedAt := Some ''2025-01-01T09:30:00.123456''\<rparr>,
         task_1\<lparr>t_id := None, t_updatedAt := Some ''2025-01-01T09:30:00.123456''\<rparr>,
         task_4\<lparr>t_id := None, t_updatedAt := Some ''2025-01-01T09:30:00.123456''\<rparr>,
         task_5\<lparr>t_id := None, t_updatedAt := Some ''2025-01-01T09:30:00.123456''\<rparr>])"
proof -
  have d: "distinct (sync_ids (\<lambda>k. k) 0 [task_3, task_1, task_4, task_5])"
    unfolding sync_ids_example by simp
  have v: "list_all valid_Task [task_3, task_1, task_4, task_5]"
    by (simp add: valid_Task_def task_1_def task_3_def task_4_def task_5_def priority_pattern_def
        category_pattern_def)
  have rt: "r_tasks \<lparr>r_tasks = [task_3, task_1, task_4, task_5], r_lastSyncTime = None\<rparr>
            = [task_3, task_1, task_4, task_5]"
    by simp
  note r = sync_replaces[of "\<lambda>k. k"
      "\<lparr>r_tasks = [task_3, task_1, task_4, task_5], r_lastSyncTime = None\<rparr>"
      ticking "[doc_a, doc_b]", unfolded rt, OF d v, unfolded sync_ids_example isoformat_ticking_0]
  show ?thesis
    using d v r by simp
qed

text \<open>
  The claim as stated fails: a request in which two tasks carry the same well-formed id is
  answered with 500 at the second insert, and the collection is left with the first task
  only.
\<close>

theorem sync_duplicate_id_counterexample:
  "sync_tasks ticking (\<lambda>k. k) \<lparr>r_tasks = [task_3, task_3], r_lastSyncTime = None\<rparr> [doc_b] =
     (Inl (HTTPException 500 (Failed ''Failed to sync tasks: '' DuplicateKeyError)),
      [\<lparr>oid = OID ''507f1f77bcf86cd799439011'',
        keys = \<lparr>k_id = Some (Some ''507f1f77bcf86cd799439011''), k_title = ''Sync Task 3'',
                k_dueDate = ''2025-01-04T09:00:00'', k_priority = ''low'',
                k_category = ''study'', k_completed = False,
                k_createdAt = ''2025-01-01T08:00:02'',
                k_updatedAt = Some ''2025-01-01T09:30:00.123456'',
                k_userId = None, k_notificationId = None\<rparr>\<rparr>])"
proof -
  have g: "sync_given_id task_3 = Some (OID ''507f1f77bcf86cd799439011'')"
    by (simp add: sync_given_id_eq task_3_def ObjectId_a)
  have k: "sync_dict ''2025-01-01T09:30:00.123456'' task_3 =
      \<lparr>k_id = Some (Some ''507f1f77bcf86cd799439011''), k_title = ''Sync Task 3'',
                k_dueDate = ''2025-01-04T09:00:00'', k_priority = ''low'',
                k_category = ''study'', k_completed = False,
                k_createdAt = ''2025-01-01T08:00:02'',
                k_updatedAt = Some ''2025-01-01T09:30:00.123456'',
                k_userId = None, k_notificationId = None\<rparr>"
    by (simp add: sync_dict_def task_3_def is_valid_def ObjectId_a)
  show ?thesis
    by (simp add: sync_tasks_def delete_many_all_def Let_def isoformat_ticking_0 g k
        insert_one_def find_one_def Task_of_def task_helper_def valid_Task_def
        priority_pattern_def category_pattern_def)
qed

section \<open>Properties of the analytics engine\<close>

subsection \<open>Date arithmetic stays in range\<close>

lemma days_before_month_bounds:
  assumes "1 \<le> m" and "m \<le> 12"
  shows "0 \<le> days_before_month y m \<and> days_before_month y m \<le> 335"
proof -
  from assms have "m = 1 \<or> m = 2 \<or> m = 3 \<or> m = 4 \<or> m = 5 \<or> m = 6 \<or> m = 7 \<or> m = 8 \<or> m = 9
      \<or> m = 10 \<or> m = 11 \<or> m = 12"
    by arith
  then show ?thesis
    by (elim disjE) (simp_all add: days_before_month_def)
qed

lemma days_before_year_bounds:
  assumes "2 \<le> y" and "y \<le> 9998"
  shows "365 \<le> days_before_year y" and "days_before_year y \<le> 3651428"
proof -
  define a where "a = (y - 1) div 400"
  define b where "b = (y - 1) div 100"
  define c where "c = (y - 1) div 4"
  have a: "0 \<le> a" "a \<le> 24" using assms unfolding a_def by simp_all
  have "b \<le> c" unfolding b_def c_def using assms by (intro zdiv_mono2) simp_all
  moreover have "0 \<le> b" using assms unfolding b_def by simp
  moreover have "c \<le> 2499" using assms unfolding c_def by simp
  moreover have "days_before_year y = (y - 1) * 365 + c - b + a"
    unfolding days_before_year_def Let_def a_def b_def c_def by simp
  ultimately have f: "b \<le> c \<and> 0 \<le> b \<and> c \<le> 2499 \<and> days_before_year y = (y - 1) * 365 + c - b + a"
    by simp
  show "365 \<le> days_before_year y" using f a assms by simp
  show "days_before_year y \<le> 3651428" using f a assms by simp
qed

lemma toordinal_bounds:
  assumes "in_range t"
  shows "366 \<le> toordinal t" and "toordinal t \<le> 3651794"
proof -
  from assms have m: "1 \<le> month t" "month t \<le> 12" and d: "1 \<le> day t" "day t \<le> 31"
    and y: "2 \<le> int (year t)" "int (year t) \<le> 9998"
    by (auto simp: in_range_def valid_datetime_def days_in_month_def split: if_splits)
  define p where "p = days_before_year (int (year t))"
  define q where "q = days_before_month (year t) (month t)"
  have "365 \<le> p" "p \<le> 3651428" "0 \<le> q" "q \<le> 335"
    using days_before_year_bounds[OF y] days_before_month_bounds[OF m, of "year t"]
    unfolding p_def q_def by simp_all
  moreover have "toordinal t = p + q + int (day t)"
    unfolding toordinal_def p_def q_def by simp
  ultimately have f: "365 \<le> p \<and> p \<le> 3651428 \<and> 0 \<le> q \<and> q \<le> 335 \<and> toordinal t = p + q + int (day t)"
    by simp
  show "366 \<le> toordinal t" using f d by linarith
  show "toordinal t \<le> 3651794" using f d by linarith
qed

lemma weekday_range: "0 \<le> weekday t \<and> weekday t \<le> 6"
  unfolding weekday_def by simp

lemma time_of_day:
  fixes h m s :: int
  assumes "0 \<le> m" "m < 60" "0 \<le> s" "s < 60"
  shows "(h * 3600 + m * 60 + s) div 3600 = h"
    and "(h * 3600 + m * 60 + s) mod 3600 div 60 = m"
    and "(h * 3600 + m * 60 + s) mod 60 = s"
proof -
  define r where "r = m * 60 + s"
  have r: "0 \<le> r" "r < 3600" using assms unfolding r_def by linarith+
  have e: "h * 3600 + m * 60 + s = h * 3600 + r" unfolding r_def by simp
  show "(h * 3600 + m * 60 + s) div 3600 = h" unfolding e using r by simp
  have "(h * 3600 + m * 60 + s) mod 3600 = r" unfolding e using r by simp
  moreover have "r div 60 = m" unfolding r_def using assms by simp
  ultimately show "(h * 3600 + m * 60 + s) mod 3600 div 60 = m" by simp
  have "h * 3600 + m * 60 + s = s + (h * 60 + m) * 60" by simp
  then have "(h * 3600 + m * 60 + s) mod 60 = s mod 60" by (simp only: mod_mult_self1)
  then show "(h * 3600 + m * 60 + s) mod 60 = s" using assms by simp
qed

lemma datetime_add_days:
  assumes "in_range t" and "- 27 \<le> n" and "n \<le> 27"
  shows "datetime_add t \<lparr>td_days = n, td_seconds = 0, td_microseconds = 0\<rparr> = Inr (shift_days t n)"
proof -
  from assms(1) have h: "hour t < 24" "minute t < 60" "second t < 60" "microsecond t < 1000000"
    by (auto simp: in_range_def valid_datetime_def)
  let ?s = "int (hour t) * 3600 + int (minute t) * 60 + int (second t)"
  have s: "0 \<le> ?s" "?s < 86400" using h by linarith+
  have tod: "?s div 3600 = int (hour t)" "?s mod 3600 div 60 = int (minute t)"
    "?s mod 60 = int (second t)"
    using time_of_day[of "int (minute t)" "int (second t)" "int (hour t)"] h by simp_all
  have u: "int (microsecond t) div 1000000 = 0" "int (microsecond t) mod 1000000 = int (microsecond t)"
    using h by simp_all
  have sd: "?s div 86400 = 0" "?s mod 86400 = ?s" using s by simp_all
  have r: "0 < toordinal t + n" "toordinal t + n \<le> 3652059"
    using toordinal_bounds[OF assms(1)] assms(2,3) by linarith+
  show ?thesis
    using r by (simp add: datetime_add_def Let_def u sd tod shift_days_def split: prod.splits)
qed

subsection \<open>The order of timestamps\<close>

lemma of_char_digit: "of_char (digit k) = (48 + k mod 10 :: nat)"
proof -
  have "k mod 10 < 10" by simp
  then have "k mod 10 = 0 \<or> k mod 10 = 1 \<or> k mod 10 = 2 \<or> k mod 10 = 3 \<or> k mod 10 = 4 \<or>
    k mod 10 = 5 \<or> k mod 10 = 6 \<or> k mod 10 = 7 \<or> k mod 10 = 8 \<or> k mod 10 = 9"
    by arith
  then show ?thesis
    unfolding digit_def by (elim disjE) simp_all
qed

lemma digit_less: "digit i < digit j \<longleftrightarrow> i mod 10 < j mod 10"
  by (simp add: less_char_def of_char_digit)

lemma digit_eq: "digit i = digit j \<longleftrightarrow> i mod 10 = j mod 10"
proof
  assume "digit i = digit j"
  then have "(of_char (digit i) :: nat) = of_char (digit j)" by simp
  then show "i mod 10 = j mod 10" by (simp add: of_char_digit)
next
  assume "i mod 10 = j mod 10"
  then show "digit i = digit j" by (simp add: digit_def)
qed

lemma append_le_same_length:
  fixes a b :: string
  shows "length a = length b \<Longrightarrow> (a @ x \<le> b @ y) = (a < b \<or> (a = b \<and> x \<le> y))"
  by (induction a b rule: list_induct2) auto

lemma digit_le_9: "digit k \<le> CHR ''9''"
proof -
  have "k mod 10 < 10" by simp
  then have "k mod 10 < 9 \<or> k mod 10 = 9" by linarith
  then have "digit k < digit 9 \<or> digit k = digit 9"
    unfolding digit_less digit_eq by simp
  then show ?thesis by (auto simp: digit_def)
qed

lemma digit_ge_0: "CHR ''0'' \<le> digit k"
proof -
  have "digit 0 < digit k \<or> digit 0 = digit k"
    unfolding digit_less digit_eq by auto
  then show ?thesis by (auto simp: digit_def)
qed

lemma le_step:
  fixes a b :: string
  shows "length a = length b \<Longrightarrow> a \<le> b \<Longrightarrow> x \<le> y \<Longrightarrow> a @ x \<le> b @ y"
  by (auto simp: append_le_same_length)

lemma cons_le_9: "c \<le> CHR ''9'' \<Longrightarrow> r \<le> r' \<Longrightarrow> c # r \<le> CHR ''9'' # r'"
  by auto

lemma pad2_less:
  assumes "a < b" and "b < 100"
  shows "pad2 a < pad2 b"
proof -
  have "a div 10 \<le> b div 10" using assms by (simp add: div_le_mono)
  then consider "a div 10 < b div 10" | "a div 10 = b div 10" by linarith
  then show ?thesis
  proof cases
    case 1
    moreover have "b div 10 < 10" using assms by simp
    ultimately show ?thesis by (simp add: pad2_def digit_less)
  next
    case 2
    have "a = 10 * (a div 10) + a mod 10" "b = 10 * (b div 10) + b mod 10" by simp_all
    with 2 assms have "a mod 10 < b mod 10" by linarith
    with 2 show ?thesis by (simp add: pad2_def digit_less)
  qed
qed

lemma pad2_le:
  assumes "a \<le> b" and "b < 100"
  shows "pad2 a \<le> pad2 b"
  using pad2_less[of a b] assms by (cases "a = b") auto

lemma length_strftime_date: "length (strftime_date t) = 10"
  by (simp add: strftime_date_def pad4_def pad2_def)

lemma pad6_le: "pad6 n \<le> ''999999''"
  unfolding pad6_def by (intro cons_le_9 digit_le_9) simp

lemma cons_mono:
  fixes c c' :: char
  shows "c \<le> c' \<Longrightarrow> r \<le> r' \<Longrightarrow> c # r \<le> c' # r'"
  by auto

lemma time_lower: "''T00:00:00'' \<le> ''T'' @ isoformat_time t"
proof -
  have "''T00:00:00'' \<le> CHR ''T'' # digit a # digit b # CHR '':'' # digit c # digit d # CHR '':'' #
      digit e # digit f # frac" for a b c d e f frac
    by (intro cons_mono digit_ge_0 order_refl) simp
  then show ?thesis
    by (simp add: isoformat_time_def pad2_def del: Cons_le_Cons)
qed

lemma time_upper:
  assumes "hour t < 24" and "minute t < 60" and "second t < 60"
  shows "''T'' @ isoformat_time t \<le> ''T23:59:59.999999''"
proof -
  have e: "''T23:59:59.999999'' = ''T'' @ pad2 23 @ '':'' @ pad2 59 @ '':'' @ pad2 59 @ ''.999999''"
    by (simp add: pad2_def digit_def)
  have f: "(if microsecond t \<noteq> 0 then ''.'' @ pad6 (microsecond t) else []) \<le> ''.999999''"
    using pad6_le[of "microsecond t"] by simp
  have l: "length (pad2 a) = length (pad2 b)" for a b by (simp add: pad2_def)
  show ?thesis
    unfolding e isoformat_time_def
    using assms f by (intro le_step l pad2_le) simp_all
qed

lemma isoformat_window:
  assumes "hour t < 24" and "minute t < 60" and "second t < 60"
  shows "(isoformat (start_of_day d) \<le> isoformat t \<and> isoformat t \<le> isoformat (end_of_day d))
         \<longleftrightarrow> strftime_date t = strftime_date d"
proof -
  have s: "isoformat (start_of_day d) = strftime_date d @ ''T00:00:00''"
    by (simp add: isoformat_def start_of_day_def strftime_date_def isoformat_time_def pad2_def digit_def)
  have e: "isoformat (end_of_day d) = strftime_date d @ ''T23:59:59.999999''"
    by (simp add: isoformat_def end_of_day_def strftime_date_def isoformat_time_def pad2_def
        pad6_def digit_def)
  have x: "isoformat t = strftime_date t @ (''T'' @ isoformat_time t)"
    by (simp add: isoformat_def)
  have l: "length (strftime_date d) = length (strftime_date t)"
    by (simp add: length_strftime_date)
  show ?thesis
    unfolding s e x
    using time_lower[of t] time_upper[OF assms] l
    by (auto simp: append_le_same_length simp del: append.simps)
qed

lemma take_10_isoformat: "take 10 (isoformat t) = strftime_date t"
  by (simp add: isoformat_def length_strftime_date)

subsection \<open>The report, when the clock is in range\<close>

lemma rate_Inr: "rate c t = Inr (rate_value c t)"
  by (simp add: rate_def rate_value_def py_truediv_def)

lemma map_exc_Inr: "(\<And>x. x \<in> set xs \<Longrightarrow> f x = Inr (g x)) \<Longrightarrow> map_exc f xs = Inr (map g xs)"
  by (induction xs) (simp_all add: and_then_def)

lemma timedelta_days: "timedelta w d 0 0 0 = \<lparr>td_days = w * 7 + d, td_seconds = 0, td_microseconds = 0\<rparr>"
  by (simp add: timedelta_def)

lemma datetime_sub_days:
  assumes "in_range t" and "0 \<le> n" and "n \<le> 27"
  shows "datetime_sub t \<lparr>td_days = n, td_seconds = 0, td_microseconds = 0\<rparr> = Inr (shift_days t (- n))"
  using datetime_add_days[OF assms(1), of "- n"] assms(2,3) by (simp add: datetime_sub_def)

lemma in_range_reading: "readings_in_range n clk \<Longrightarrow> k < n \<Longrightarrow> in_range (clk k)"
  by (simp add: readings_in_range_def list_all_iff)

lemma bucket_of_Inr:
  "bucket_of item =
     Inr (g_id item, \<lparr>b_total = g_total item, b_completed = g_completed item,
                      b_pending = g_total item - g_completed item,
                      b_completionRate = py_round1 (rate_value (g_completed item) (g_total item))\<rparr>)"
  by (simp add: bucket_of_def rate_Inr and_then_def)

lemma daily_entry_Inr:
  "daily_entry db date =
     Inr \<lparr>e_date = strftime_date date, e_day = strftime_a date,
          e_created = count_documents
            (\<lambda>x. isoformat (start_of_day date) \<le> k_createdAt (keys x) \<and>
                  k_createdAt (keys x) \<le> isoformat (end_of_day date)) db,
          e_completed = count_documents
            (\<lambda>x. isoformat (start_of_day date) \<le> k_createdAt (keys x) \<and>
                  k_createdAt (keys x) \<le> isoformat (end_of_day date) \<and> k_completed (keys x) = True) db,
          e_completionRate = rate_value
            (count_documents
              (\<lambda>x. isoformat (start_of_day date) \<le> k_createdAt (keys x) \<and>
                  k_createdAt (keys x) \<le> isoformat (end_of_day date) \<and> k_completed (keys x) = True) db)
            (count_documents
              (\<lambda>x. isoformat (start_of_day date) \<le> k_createdAt (keys x) \<and>
                  k_createdAt (keys x) \<le> isoformat (end_of_day date)) db)\<rparr>"
  by (simp add: daily_entry_def rate_Inr and_then_def Let_def)

lemma daily_loop_Inr:
  assumes "readings_in_range 15 clk"
  shows "map_exc (\<lambda>i. and_then (datetime_sub (clk (7 + i)) (timedelta 0 (int i) 0 0 0)) (daily_entry db))
           [0, 1, 2, 3, 4, 5, 6]
         = Inr (map (\<lambda>i. projr (daily_entry db (shift_days (clk (7 + i)) (- int i)))) [0, 1, 2, 3, 4, 5, 6])"
proof (rule map_exc_Inr)
  fix i :: nat assume "i \<in> set [0, 1, 2, 3, 4, 5, 6]"
  then have i: "i \<le> 6" by auto
  then have r: "in_range (clk (7 + i))"
    using assms by (intro in_range_reading[of 15]) simp_all
  have "datetime_sub (clk (7 + i)) (timedelta 0 (int i) 0 0 0) = Inr (shift_days (clk (7 + i)) (- int i))"
    using datetime_sub_days[OF r, of "int i"] i by (simp add: timedelta_days)
  then show "and_then (datetime_sub (clk (7 + i)) (timedelta 0 (int i) 0 0 0)) (daily_entry db)
     = Inr (projr (daily_entry db (shift_days (clk (7 + i)) (- int i))))"
    by (simp add: and_then_def daily_entry_Inr)
qed

lemma buckets_Inr: "map_exc bucket_of gs = Inr (map (\<lambda>g. projr (bucket_of g)) gs)"
  by (rule map_exc_Inr) (simp add: bucket_of_Inr)

lemma week_bounds_Inr:
  assumes "readings_in_range 15 clk"
  shows "datetime_sub (clk 3) (timedelta 0 (weekday (clk 4)) 0 0 0)
           = Inr (shift_days (clk 3) (- weekday (clk 4)))"
    and "datetime_add (clk 5) (timedelta 0 (6 - weekday (clk 6)) 0 0 0)
           = Inr (shift_days (clk 5) (6 - weekday (clk 6)))"
proof -
  have r3: "in_range (clk 3)" and r5: "in_range (clk 5)"
    using assms by (auto intro: in_range_reading[of 15])
  show "datetime_sub (clk 3) (timedelta 0 (weekday (clk 4)) 0 0 0)
           = Inr (shift_days (clk 3) (- weekday (clk 4)))"
    using datetime_sub_days[OF r3, of "weekday (clk 4)"] weekday_range[of "clk 4"]
    by (simp add: timedelta_days)
  show "datetime_add (clk 5) (timedelta 0 (6 - weekday (clk 6)) 0 0 0)
           = Inr (shift_days (clk 5) (6 - weekday (clk 6)))"
    using datetime_add_days[OF r5, of "6 - weekday (clk 6)"] weekday_range[of "clk 6"]
    by (simp add: timedelta_days)
qed

lemma stats_report_Inr:
  assumes "readings_in_range 15 clk"
  shows "stats_report clk db =
     Inr \<lparr>overview =
            \<lparr>totalTasks = count_documents (\<lambda>x. True) db,
             completedTasks = count_documents (\<lambda>x. k_completed (keys x) = True) db,
             pendingTasks = count_documents (\<lambda>x. True) db
                            - count_documents (\<lambda>x. k_completed (keys x) = True) db,
             overdueTask = count_documents
               (\<lambda>x. k_completed (keys x) = False \<and> k_dueDate (keys x) < isoformat (clk 0)) db,
             todayTasks = count_documents
               (\<lambda>x. isoformat (start_of_day (clk 1)) \<le> k_dueDate (keys x) \<and>
                     k_dueDate (keys x) \<le> isoformat (end_of_day (clk 2))) db,
             weekTasks = count_documents
               (\<lambda>x. isoformat (start_of_day (shift_days (clk 3) (- weekday (clk 4)))) \<le> k_dueDate (keys x) \<and>
                     k_dueDate (keys x) \<le> isoformat (end_of_day (shift_days (clk 5) (6 - weekday (clk 6))))) db,
             completionRate = py_round1 (rate_value
               (count_documents (\<lambda>x. k_completed (keys x) = True) db)
               (count_documents (\<lambda>x. True) db))\<rparr>,
          categoryStats = map (\<lambda>g. projr (bucket_of g)) (aggregate_group (\<lambda>x. k_category (keys x)) db),
          priorityStats = map (\<lambda>g. projr (bucket_of g)) (aggregate_group (\<lambda>x. k_priority (keys x)) db),
          dailyTrends = rev (map (\<lambda>i. projr (daily_entry db (shift_days (clk (7 + i)) (- int i))))
                               [0, 1, 2, 3, 4, 5, 6]),
          insights =
            \<lparr>mostProductiveCategory =
               (case aggregate_group (\<lambda>x. k_category (keys x)) db of
                  [] \<Rightarrow> None | c # cs \<Rightarrow> Some (g_id (max_by g_completed c cs))),
             leastProductiveCategory =
               (case aggregate_group (\<lambda>x. k_category (keys x)) db of
                  [] \<Rightarrow> None | c # cs \<Rightarrow> Some (g_id (min_by g_completed c cs))),
             averageTasksPerDay =
               py_round1 (PyFloat (to_double (of_int (count_documents (\<lambda>x. True) db) / 7))),
             streak = 0,
             productivityScore =
               py_round1 (py_add
                 (rate_value (count_documents (\<lambda>x. k_completed (keys x) = True) db)
                             (count_documents (\<lambda>x. True) db))
                 (if count_documents
                       (\<lambda>x. k_completed (keys x) = False \<and> k_dueDate (keys x) < isoformat (clk 0)) db = 0
                  then 10
                  else - count_documents
                       (\<lambda>x. k_completed (keys x) = False \<and> k_dueDate (keys x) < isoformat (clk 0)) db * 2))\<rparr>,
          timestamp = isoformat (clk 14)\<rparr>"
  unfolding stats_report_def Let_def week_bounds_Inr[OF assms] daily_loop_Inr[OF assms]
    rate_Inr buckets_Inr
  by (simp add: and_then_def py_truediv_def)

subsection \<open>Totals\<close>

lemma get_stats_Inr:
  assumes "readings_in_range 15 clk"
  shows "get_stats clk db = Inr (projr (stats_report clk db))"
  by (simp add: get_stats_def stats_report_Inr[OF assms])

lemma count_split:
  "count_documents P db - count_documents (\<lambda>x. P x \<and> Q x) db
   = int (length (filter (\<lambda>x. P x \<and> \<not> Q x) db))"
proof -
  have "length (filter P db) = length (filter Q (filter P db)) + length (filter (\<lambda>x. \<not> Q x) (filter P db))"
    by (rule sum_length_filter_compl[symmetric])
  then show ?thesis
    by (simp add: count_documents_def conj_commute)
qed

lemma bucket_of_fields:
  "projr (bucket_of g) =
     (g_id g, \<lparr>b_total = g_total g, b_completed = g_completed g,
               b_pending = g_total g - g_completed g,
               b_completionRate = py_round1 (rate_value (g_completed g) (g_total g))\<rparr>)"
  by (simp add: bucket_of_Inr)

text \<open>
  C1. For every collection, when the clock readings are in range, Stats returns a
  report in which \<open>totalTasks = completedTasks + pendingTasks\<close>, and in which every bucket
  of the category and the priority breakdown has \<open>total = completed + pending\<close>. The
  total is the number of documents (of the bucket) and pending the number of those that
  are not completed.
\<close>

theorem stats_totals:
  assumes "readings_in_range 15 clk"
  shows "\<exists>r. get_stats clk db = Inr r \<and>
     totalTasks (overview r) = completedTasks (overview r) + pendingTasks (overview r) \<and>
     totalTasks (overview r) = int (length db) \<and>
     pendingTasks (overview r) = int (length (filter (\<lambda>x. \<not> k_completed (keys x)) db)) \<and>
     list_all (\<lambda>(k, b). b_total b = b_completed b + b_pending b \<and>
        b_total b = int (length (filter (\<lambda>x. k_category (keys x) = k) db)) \<and>
        b_pending b = int (length (filter (\<lambda>x. k_category (keys x) = k \<and> \<not> k_completed (keys x)) db)))
       (categoryStats r) \<and>
     list_all (\<lambda>(k, b). b_total b = b_completed b + b_pending b \<and>
        b_total b = int (length (filter (\<lambda>x. k_priority (keys x) = k) db)) \<and>
        b_pending b = int (length (filter (\<lambda>x. k_priority (keys x) = k \<and> \<not> k_completed (keys x)) db)))
       (priorityStats r)"
proof -
  let ?r = "projr (stats_report clk db)"
  have p: "pendingTasks (overview ?r) = int (length (filter (\<lambda>x. \<not> k_completed (keys x)) db))"
    using count_split[of "\<lambda>x. True" db "\<lambda>x. k_completed (keys x)"]
    by (simp add: stats_report_Inr[OF assms])
  have t: "totalTasks (overview ?r) = completedTasks (overview ?r) + pendingTasks (overview ?r)"
    "totalTasks (overview ?r) = int (length db)"
    by (simp_all add: stats_report_Inr[OF assms] count_documents_def)
  have b: "list_all (\<lambda>(k, b). b_total b = b_completed b + b_pending b \<and>
        b_total b = int (length (filter (\<lambda>x. key x = k) db)) \<and>
        b_pending b = int (length (filter (\<lambda>x. key x = k \<and> \<not> k_completed (keys x)) db)))
       (map (\<lambda>g. projr (bucket_of g)) (aggregate_group key db))" for key
  proof -
    have "b_total b = b_completed b + b_pending b \<and>
        b_total b = int (length (filter (\<lambda>x. key x = k) db)) \<and>
        b_pending b = int (length (filter (\<lambda>x. key x = k \<and> \<not> k_completed (keys x)) db))"
      if "(k, b) \<in> set (map (\<lambda>g. projr (bucket_of g)) (aggregate_group key db))" for k b
    proof -
      from that have b: "b = \<lparr>b_total = count_documents (\<lambda>x. key x = k) db,
          b_completed = count_documents (\<lambda>x. key x = k \<and> k_completed (keys x)) db,
          b_pending = count_documents (\<lambda>x. key x = k) db
                      - count_documents (\<lambda>x. key x = k \<and> k_completed (keys x)) db,
          b_completionRate = py_round1 (rate_value
             (count_documents (\<lambda>x. key x = k \<and> k_completed (keys x)) db)
             (count_documents (\<lambda>x. key x = k) db))\<rparr>"
        by (auto simp: aggregate_group_def bucket_of_fields)
      show ?thesis
        unfolding b using count_split[of "\<lambda>x. key x = k" db "\<lambda>x. k_completed (keys x)"]
        by (simp add: count_documents_def)
    qed
    then show ?thesis unfolding list_all_iff by blast
  qed
  show ?thesis
    using get_stats_Inr[OF assms, of db] p t b[of "\<lambda>x. k_category (keys x)"] b[of "\<lambda>x. k_priority (keys x)"]
    by (intro exI[of _ ?r]) (simp add: stats_report_Inr[OF assms])
qed

subsection \<open>Numbers\<close>




subsection \<open>Rates and the productivity score\<close>


lemma map_exc_set:
  "map_exc f xs = Inr ys \<Longrightarrow> y \<in> set ys \<Longrightarrow> \<exists>x \<in> set xs. f x = Inr y"
  by (induction xs arbitrary: ys) (auto simp: and_then_def split: sum.splits)

lemma week_entry_zero:
  "week_entry clk db week = Inr e \<Longrightarrow> w_created e = 0 \<Longrightarrow> w_completionRate e = PyInt 0"
  by (auto simp: week_entry_def and_then_def Let_def rate_Inr rate_value_def py_round1_def
      split: sum.splits)

lemma daily_entry_zero:
  "e_created (projr (daily_entry db date)) = 0 \<Longrightarrow>
   e_completionRate (projr (daily_entry db date)) = PyInt 0"
  by (simp add: daily_entry_Inr rate_value_def)

lemma bucket_of_zero:
  "b_total (snd (projr (bucket_of g))) = 0 \<Longrightarrow>
   b_completionRate (snd (projr (bucket_of g))) = PyInt 0"
  by (simp add: bucket_of_fields rate_value_def py_round1_def)

text \<open>
  C6. When the clock readings are in range, Stats returns a report, for every collection,
  in which a rate is the int 0 wherever its denominator is 0: the overall completion rate
  (denominator \<open>totalTasks\<close>), the rate of every bucket of the two breakdowns (its total)
  and of every day of the daily trend (the tasks created that day); the weekly trend, when
  the productivity endpoint returns one, has the same property. In particular Stats on the
  empty collection returns a report, not an error, and its completion rate is 0.
\<close>

theorem rates_zero:
  assumes "readings_in_range 15 clk"
  shows "\<exists>r r0. get_stats clk db = Inr r \<and>
     (totalTasks (overview r) = 0 \<longrightarrow> completionRate (overview r) = PyInt 0) \<and>
     list_all (\<lambda>(k, b). b_total b = 0 \<longrightarrow> b_completionRate b = PyInt 0) (categoryStats r) \<and>
     list_all (\<lambda>(k, b). b_total b = 0 \<longrightarrow> b_completionRate b = PyInt 0) (priorityStats r) \<and>
     list_all (\<lambda>e. e_created e = 0 \<longrightarrow> e_completionRate e = PyInt 0) (dailyTrends r) \<and>
     (case get_productivity_analytics clk' db of
        Inl err \<Rightarrow> True
      | Inr w \<Rightarrow> list_all (\<lambda>e. w_created e = 0 \<longrightarrow> w_completionRate e = PyInt 0)
                   (weeklyTrends w)) \<and>
     get_stats clk [] = Inr r0 \<and> completionRate (overview r0) = PyInt 0"
proof -
  let ?r = "projr (stats_report clk db)"
  let ?e = "projr (stats_report clk [])"
  have o: "totalTasks (overview ?r) = 0 \<longrightarrow> completionRate (overview ?r) = PyInt 0"
    by (simp add: stats_report_Inr[OF assms] rate_value_def py_round1_def)
  have b: "list_all (\<lambda>(k, b). b_total b = 0 \<longrightarrow> b_completionRate b = PyInt 0)
             (map (\<lambda>g. projr (bucket_of g)) gs)" for gs
    by (auto simp: list_all_iff bucket_of_fields rate_value_def py_round1_def)
  have d: "list_all (\<lambda>e. e_created e = 0 \<longrightarrow> e_completionRate e = PyInt 0)
             (dailyTrends ?r)"
    using daily_entry_zero by (simp add: stats_report_Inr[OF assms])
  have w: "case get_productivity_analytics clk' db of
        Inl err \<Rightarrow> True
      | Inr w \<Rightarrow> list_all (\<lambda>e. w_created e = 0 \<longrightarrow> w_completionRate e = PyInt 0)
                   (weeklyTrends w)"
  proof (cases "map_exc (week_entry clk' db) [0, 1, 2, 3]")
    case (Inl err)
    then show ?thesis by (simp add: get_productivity_analytics_def)
  next
    case (Inr ys)
    have "w_completionRate e = PyInt 0" if "e \<in> set ys" and "w_created e = 0" for e
      using map_exc_set[OF Inr that(1)] week_entry_zero[OF _ that(2)] by blast
    then show ?thesis
      unfolding get_productivity_analytics_def Inr by (simp add: list_all_iff)
  qed
  have e: "completionRate (overview ?e) = PyInt 0"
    by (simp add: stats_report_Inr[OF assms] count_documents_def rate_value_def py_round1_def)
  have c: "categoryStats ?r = map (\<lambda>g. projr (bucket_of g)) (aggregate_group (\<lambda>x. k_category (keys x)) db)"
    and p: "priorityStats ?r = map (\<lambda>g. projr (bucket_of g)) (aggregate_group (\<lambda>x. k_priority (keys x)) db)"
    by (simp_all add: stats_report_Inr[OF assms])
  have bc: "list_all (\<lambda>(k, b). b_total b = 0 \<longrightarrow> b_completionRate b = PyInt 0)
             (categoryStats ?r)"
    unfolding c by (rule b)
  have bp: "list_all (\<lambda>(k, b). b_total b = 0 \<longrightarrow> b_completionRate b = PyInt 0)
             (priorityStats ?r)"
    unfolding p by (rule b)
  show ?thesis
    by (rule exI[of _ ?r], rule exI[of _ ?e])
      (intro conjI get_stats_Inr[OF assms] o bc bp d w e)
qed

subsection \<open>The daily trend\<close>

lemma same_date_shift:
  "same_date a b \<Longrightarrow> strftime_date (shift_days a n) = strftime_date (shift_days b n)"
  by (simp add: same_date_def shift_days_def toordinal_def strftime_date_def split: prod.splits)

lemma window_created_on:
  assumes "list_all (\<lambda>x. isoformat_stamp (k_createdAt (keys x))) db"
  shows "count_documents
           (\<lambda>x. isoformat (start_of_day date) \<le> k_createdAt (keys x) \<and>
                 k_createdAt (keys x) \<le> isoformat (end_of_day date)) db
         = created_on (strftime_date date) db"
    and "count_documents
           (\<lambda>x. isoformat (start_of_day date) \<le> k_createdAt (keys x) \<and>
                 k_createdAt (keys x) \<le> isoformat (end_of_day date) \<and> k_completed (keys x)) db
         = completed_on (strftime_date date) db"
proof -
  have w: "(isoformat (start_of_day date) \<le> k_createdAt (keys x) \<and>
            k_createdAt (keys x) \<le> isoformat (end_of_day date))
           \<longleftrightarrow> take 10 (k_createdAt (keys x)) = strftime_date date" if "x \<in> set db" for x
  proof -
    from assms that obtain t where t: "valid_datetime t" "k_createdAt (keys x) = isoformat t"
      by (auto simp: list_all_iff isoformat_stamp_def)
    from t(1) have "hour t < 24" "minute t < 60" "second t < 60"
      by (simp_all add: valid_datetime_def)
    from isoformat_window[OF this, of date] show ?thesis
      by (simp add: t(2) take_10_isoformat)
  qed
  show "count_documents
           (\<lambda>x. isoformat (start_of_day date) \<le> k_createdAt (keys x) \<and>
                 k_createdAt (keys x) \<le> isoformat (end_of_day date)) db
         = created_on (strftime_date date) db"
    unfolding count_documents_def created_on_def
    by (intro arg_cong[where f = int] arg_cong[where f = length] filter_cong refl w)
  show "count_documents
           (\<lambda>x. isoformat (start_of_day date) \<le> k_createdAt (keys x) \<and>
                 k_createdAt (keys x) \<le> isoformat (end_of_day date) \<and> k_completed (keys x)) db
         = completed_on (strftime_date date) db"
    unfolding count_documents_def completed_on_def
    using w by (intro arg_cong[where f = int] arg_cong[where f = length] filter_cong refl) auto
qed

text \<open>
  C4, as the code has it. When the clock readings are in range, the seven readings of the
  loop fall on one calendar day \<open>today\<close>, and every \<open>createdAt\<close> of the collection is a
  timestamp in the form the server writes, the daily trend has seven entries, for the days
  six days before \<open>today\<close> up to \<open>today\<close> in this order (oldest first, today last), and
  each entry counts the tasks created on its day and those of them that are completed.
\<close>

theorem daily_trend:
  assumes "readings_in_range 15 clk"
    and "list_all (\<lambda>i. same_date (clk (7 + i)) today) [0, 1, 2, 3, 4, 5, 6]"
    and "list_all (\<lambda>x. isoformat_stamp (k_createdAt (keys x))) db"
  shows "\<exists>r. get_stats clk db = Inr r \<and>
     map e_date (dailyTrends r)
       = map (\<lambda>i. strftime_date (shift_days today (- int i))) [6, 5, 4, 3, 2, 1, 0] \<and>
     list_all (\<lambda>e. e_created e = created_on (e_date e) db \<and>
                   e_completed e = completed_on (e_date e) db) (dailyTrends r)"
proof -
  let ?r = "projr (stats_report clk db)"
  have d: "dailyTrends ?r = rev (map (\<lambda>i. projr (daily_entry db (shift_days (clk (7 + i)) (- int i))))
                               [0, 1, 2, 3, 4, 5, 6])"
    by (simp add: stats_report_Inr[OF assms(1)])
  have s: "strftime_date (shift_days (clk (7 + i)) (- int i)) = strftime_date (shift_days today (- int i))"
    if "i \<in> set [0, 1, 2, 3, 4, 5, 6]" for i
  proof (rule same_date_shift)
    from assms(2) have "\<forall>j \<in> set [0, 1, 2, 3, 4, 5, 6]. same_date (clk (7 + j)) today"
      unfolding list_all_iff .
    with that show "same_date (clk (7 + i)) today" by blast
  qed
  have dates: "map e_date (dailyTrends ?r)
       = map (\<lambda>i. strftime_date (shift_days today (- int i))) [6, 5, 4, 3, 2, 1, 0]"
    unfolding d using s[of 0] s[of 1] s[of 2] s[of 3] s[of 4] s[of 5] s[of 6]
    by (simp add: daily_entry_Inr)
  have counts: "list_all (\<lambda>e. e_created e = created_on (e_date e) db \<and>
                   e_completed e = completed_on (e_date e) db) (dailyTrends ?r)"
    unfolding d by (simp add: daily_entry_Inr window_created_on[OF assms(3)])
  show ?thesis
    by (rule exI[of _ ?r]) (intro conjI get_stats_Inr[OF assms(1)] dates counts)
qed

subsection \<open>The reports on example collections\<close>

lemma ticking_in_range: "readings_in_range 15 ticking"
  unfolding readings_in_range_def list_all_iff
  by (simp add: in_range_def valid_datetime_def ticking_def morning_def days_in_month_def)

lemma midnight_in_range: "readings_in_range 15 midnight"
  unfolding readings_in_range_def list_all_iff
  by (simp add: in_range_def valid_datetime_def midnight_def days_in_month_def)

lemma toordinal_morning: "toordinal (ticking k) = 739252"
  by (simp add: toordinal_def ticking_def morning_def days_before_year_def days_before_month_def
      is_leap_def)

lemma ord2ymd_days:
  "ord2ymd 739252 = (2025, 1, 1)" "ord2ymd 739251 = (2024, 12, 31)"
  "ord2ymd 739250 = (2024, 12, 30)" "ord2ymd 739249 = (2024, 12, 29)"
  "ord2ymd 739248 = (2024, 12, 28)" "ord2ymd 739247 = (2024, 12, 27)"
  "ord2ymd 739246 = (2024, 12, 26)"
  by (simp_all add: ord2ymd_def Let_def)

lemma strftime_shift_ticking:
  "map (\<lambda>i. strftime_date (shift_days (ticking k) (- int i))) [6, 5, 4, 3, 2, 1, 0]
   = [''2024-12-26'', ''2024-12-27'', ''2024-12-28'', ''2024-12-29'', ''2024-12-30'',
      ''2024-12-31'', ''2025-01-01'']"
  by (simp add: shift_days_def toordinal_morning ord2ymd_days strftime_date_def pad2_def pad4_def
      digit_def)

lemma rate_values:
  "rate_value 1 1 = PyFloat 100" "rate_value 0 1 = PyFloat 0" "rate_value 1 2 = PyFloat 50"
  by code_simp+



lemma rate_value_zero: "rate_value c 0 = PyInt 0"
  by (simp add: rate_value_def)

subsection \<open>Instances of the theorems on the reports\<close>

theorem stats_totals_witness:
  "readings_in_range 15 ticking \<and>
   (\<exists>r. get_stats ticking [doc_a, doc_b] = Inr r \<and>
      totalTasks (overview r) = 2 \<and> completedTasks (overview r) = 1 \<and>
      pendingTasks (overview r) = 1 \<and>
      map (\<lambda>(k, b). (k, b_total b, b_completed b, b_pending b)) (categoryStats r)
        = [(''work'', 1, 1, 0), (''personal'', 1, 0, 1)] \<and>
      map (\<lambda>(k, b). (k, b_total b, b_completed b, b_pending b)) (priorityStats r)
        = [(''high'', 1, 1, 0), (''low'', 1, 0, 1)])"
proof -
  from stats_totals[OF ticking_in_range, of "[doc_a, doc_b]"]
  obtain r where r: "get_stats ticking [doc_a, doc_b] = Inr r"
    and t: "totalTasks (overview r) = completedTasks (overview r) + pendingTasks (overview r)"
    and n: "totalTasks (overview r) = int (length [doc_a, doc_b])"
    and p: "pendingTasks (overview r) = int (length (filter (\<lambda>x. \<not> k_completed (keys x)) [doc_a, doc_b]))"
    by blast
  have e: "r = projr (stats_report ticking [doc_a, doc_b])"
    using r get_stats_Inr[OF ticking_in_range, of "[doc_a, doc_b]"] by simp
  have n2: "totalTasks (overview r) = 2" using n by simp
  have p1: "pendingTasks (overview r) = 1" using p by (simp add: doc_a_def doc_b_def)
  have c1: "completedTasks (overview r) = 1" using t n2 p1 by simp
  have b: "map (\<lambda>(k, b). (k, b_total b, b_completed b, b_pending b)) (categoryStats r)
        = [(''work'', 1, 1, 0), (''personal'', 1, 0, 1)]"
    "map (\<lambda>(k, b). (k, b_total b, b_completed b, b_pending b)) (priorityStats r)
        = [(''high'', 1, 1, 0), (''low'', 1, 0, 1)]"
    unfolding e
    by (simp_all add: stats_report_Inr[OF ticking_in_range] aggregate_group_def bucket_of_fields
        count_documents_def doc_a_def doc_b_def)
  show ?thesis
    by (rule conjI[OF ticking_in_range], rule exI[of _ r]) (intro conjI r n2 c1 p1 b)
qed


theorem rates_zero_witness:
  "readings_in_range 15 ticking \<and>
   (\<exists>r r0. get_stats ticking [doc_a, doc_b] = Inr r \<and>
      map e_created (dailyTrends r) = [0, 0, 0, 0, 1, 0, 1] \<and>
      map e_completionRate (dailyTrends r)
        = [PyInt 0, PyInt 0, PyInt 0, PyInt 0, PyFloat 100, PyInt 0, PyFloat 0] \<and>
      get_stats ticking [] = Inr r0 \<and> totalTasks (overview r0) = 0 \<and>
      completionRate (overview r0) = PyInt 0)"
proof -
  from rates_zero[OF ticking_in_range, of "[doc_a, doc_b]" ticking]
  obtain r r0 where r: "get_stats ticking [doc_a, doc_b] = Inr r"
    and r0: "get_stats ticking [] = Inr r0" and c: "completionRate (overview r0) = PyInt 0"
    by blast
  have e: "r = projr (stats_report ticking [doc_a, doc_b])"
    using r get_stats_Inr[OF ticking_in_range, of "[doc_a, doc_b]"] by simp
  have e0: "r0 = projr (stats_report ticking [])"
    using r0 get_stats_Inr[OF ticking_in_range, of "[]"] by simp
  have t0: "totalTasks (overview r0) = 0"
    unfolding e0 by (simp add: stats_report_Inr[OF ticking_in_range] count_documents_def)
  have iso: "isoformat (start_of_day (shift_days (ticking k) (- int i))) =
      strftime_date (shift_days (ticking k) (- int i)) @ ''T00:00:00''"
    "isoformat (end_of_day (shift_days (ticking k) (- int i))) =
      strftime_date (shift_days (ticking k) (- int i)) @ ''T23:59:59.999999''" for k i
    by (simp_all add: isoformat_def start_of_day_def end_of_day_def strftime_date_def
        isoformat_time_def pad2_def pad6_def digit_def)
  have d: "map e_created (dailyTrends r) = [0, 0, 0, 0, 1, 0, 1]"
    "map e_completionRate (dailyTrends r)
        = [PyInt 0, PyInt 0, PyInt 0, PyInt 0, PyFloat 100, PyInt 0, PyFloat 0]"
    unfolding e
    using strftime_shift_ticking iso[of _ 0] iso[of _ 1] iso[of _ 2] iso[of _ 3] iso[of _ 4]
      iso[of _ 5] iso[of _ 6]
    by (simp_all add: stats_report_Inr[OF ticking_in_range] daily_entry_Inr count_documents_def
        doc_a_def doc_b_def rate_values rate_value_zero)
  show ?thesis
    by (rule conjI[OF ticking_in_range], rule exI[of _ r], rule exI[of _ r0])
      (intro conjI r d r0 t0 c)
qed

subsection \<open>The daily trend on example collections\<close>

lemma toordinal_midnight: "toordinal (midnight k) = (if k \<le> 7 then 739252 else 739253)"
  by (simp add: toordinal_def midnight_def days_before_year_def days_before_month_def is_leap_def)

lemma toordinal_morning_day: "toordinal morning = 739252"
  by (simp add: toordinal_def morning_def days_before_year_def days_before_month_def is_leap_def)

lemma strftime_shift_morning:
  "map (\<lambda>i. strftime_date (shift_days morning (- int i))) [6, 5, 4, 3, 2, 1, 0]
   = [''2024-12-26'', ''2024-12-27'', ''2024-12-28'', ''2024-12-29'', ''2024-12-30'',
      ''2024-12-31'', ''2025-01-01'']"
  by (simp add: shift_days_def toordinal_morning_day ord2ymd_days strftime_date_def pad2_def
      pad4_def digit_def)

lemma strftime_shift_midnight:
  "map (\<lambda>i. strftime_date (shift_days (midnight (7 + i)) (- int i))) [6, 5, 4, 3, 2, 1, 0]
   = [''2024-12-27'', ''2024-12-28'', ''2024-12-29'', ''2024-12-30'', ''2024-12-31'',
      ''2025-01-01'', ''2025-01-01'']"
  by (simp add: shift_days_def toordinal_midnight ord2ymd_days strftime_date_def pad2_def
      pad4_def digit_def)

lemma stamp_doc_a: "isoformat_stamp (k_createdAt (keys doc_a))"
  unfolding isoformat_stamp_def
  by (rule exI[of _ "\<lparr>year = 2024, month = 12, day = 30, hour = 8, minute = 15, second = 0,
        microsecond = 250000\<rparr>"])
    (simp add: valid_datetime_def days_in_month_def doc_a_def isoformat_def strftime_date_def
      isoformat_time_def pad2_def pad4_def pad6_def digit_def)

lemma stamp_doc_b: "isoformat_stamp (k_createdAt (keys doc_b))"
  unfolding isoformat_stamp_def
  by (rule exI[of _ "\<lparr>year = 2025, month = 1, day = 1, hour = 7, minute = 45, second = 10,
        microsecond = 500\<rparr>"])
    (simp add: valid_datetime_def days_in_month_def doc_b_def isoformat_def strftime_date_def
      isoformat_time_def pad2_def pad4_def pad6_def digit_def)

lemma ticking_same_date:
  "list_all (\<lambda>i. same_date (ticking (7 + i)) morning) [0, 1, 2, 3, 4, 5, 6]"
  by (simp add: same_date_def ticking_def)

lemma trend_counts:
  assumes "list_all (\<lambda>e. e_created e = f (e_date e) \<and> e_completed e = g (e_date e)) xs"
  shows "map e_created xs = map f (map e_date xs)"
    and "map e_completed xs = map g (map e_date xs)"
proof -
  from assms have a: "\<And>e. e \<in> set xs \<Longrightarrow> e_created e = f (e_date e)"
    and b: "\<And>e. e \<in> set xs \<Longrightarrow> e_completed e = g (e_date e)"
    unfolding list_all_iff by blast+
  show "map e_created xs = map f (map e_date xs)"
    unfolding map_map comp_def by (rule map_cong[OF refl a])
  show "map e_completed xs = map g (map e_date xs)"
    unfolding map_map comp_def by (rule map_cong[OF refl b])
qed

lemma iso_day_bounds:
  "isoformat (start_of_day t) = strftime_date t @ ''T00:00:00''"
  "isoformat (end_of_day t) = strftime_date t @ ''T23:59:59.999999''"
  by (simp_all add: isoformat_def start_of_day_def end_of_day_def strftime_date_def
      isoformat_time_def pad2_def pad6_def digit_def)

theorem daily_trend_witness:
  "readings_in_range 15 ticking \<and>
   list_all (\<lambda>i. same_date (ticking (7 + i)) morning) [0, 1, 2, 3, 4, 5, 6] \<and>
   list_all (\<lambda>x. isoformat_stamp (k_createdAt (keys x))) [doc_a, doc_b] \<and>
   (\<exists>r. get_stats ticking [doc_a, doc_b] = Inr r \<and>
      map e_date (dailyTrends r)
        = [''2024-12-26'', ''2024-12-27'', ''2024-12-28'', ''2024-12-29'', ''2024-12-30'',
           ''2024-12-31'', ''2025-01-01''] \<and>
      map e_created (dailyTrends r) = [0, 0, 0, 0, 1, 0, 1] \<and>
      map e_completed (dailyTrends r) = [0, 0, 0, 0, 1, 0, 0])"
proof -
  have s: "list_all (\<lambda>x. isoformat_stamp (k_createdAt (keys x))) [doc_a, doc_b]"
    using stamp_doc_a stamp_doc_b by simp
  from daily_trend[OF ticking_in_range ticking_same_date s]
  obtain r where r: "get_stats ticking [doc_a, doc_b] = Inr r"
    and d: "map e_date (dailyTrends r)
       = map (\<lambda>i. strftime_date (shift_days morning (- int i))) [6, 5, 4, 3, 2, 1, 0]"
    and c: "list_all (\<lambda>e. e_created e = created_on (e_date e) [doc_a, doc_b] \<and>
                   e_completed e = completed_on (e_date e) [doc_a, doc_b]) (dailyTrends r)"
    by blast
  have d': "map e_date (dailyTrends r)
        = [''2024-12-26'', ''2024-12-27'', ''2024-12-28'', ''2024-12-29'', ''2024-12-30'',
           ''2024-12-31'', ''2025-01-01'']"
    unfolding d by (rule strftime_shift_morning)
  have n: "map e_created (dailyTrends r) = [0, 0, 0, 0, 1, 0, 1]"
    "map e_completed (dailyTrends r) = [0, 0, 0, 0, 1, 0, 0]"
    using trend_counts[OF c] unfolding d'
    by (simp_all add: created_on_def completed_on_def doc_a_def doc_b_def)
  show ?thesis
    by (intro conjI ticking_in_range ticking_same_date s exI[of _ r] r d' n)
qed

text \<open>
  The claim as stated fails. The loop reads the clock once for each of its seven rounds: with
  a clock that passes midnight between the first and the second round, the trend has two
  entries for 2025-01-01 and none for 2024-12-26. And the days are compared as strings: a
  document whose \<open>createdAt\<close> is \<^verbatim>\<open>2025-01-01 08:00:00\<close>, written with a space, is counted on no day,
  though its date is 2025-01-01, the day of the last entry.
\<close>

theorem daily_trend_counterexample:
  "map_sum id (\<lambda>r. map e_date (dailyTrends r)) (get_stats midnight [])
     = Inr [''2024-12-27'', ''2024-12-28'', ''2024-12-29'', ''2024-12-30'', ''2024-12-31'',
            ''2025-01-01'', ''2025-01-01''] \<and>
   map_sum id (\<lambda>r. map e_created (dailyTrends r)) (get_stats ticking [doc_c])
     = Inr [0, 0, 0, 0, 0, 0, 0] \<and>
   created_on ''2025-01-01'' [doc_c] = 1"
proof -
  have a: "map e_date (dailyTrends (projr (stats_report midnight [])))
     = [''2024-12-27'', ''2024-12-28'', ''2024-12-29'', ''2024-12-30'', ''2024-12-31'',
            ''2025-01-01'', ''2025-01-01'']"
    using strftime_shift_midnight
    by (simp add: stats_report_Inr[OF midnight_in_range] daily_entry_Inr)
  have b: "map e_created (dailyTrends (projr (stats_report ticking [doc_c])))
     = [0, 0, 0, 0, 0, 0, 0]"
    using strftime_shift_ticking
    by (simp add: stats_report_Inr[OF ticking_in_range] daily_entry_Inr iso_day_bounds
        count_documents_def doc_c_def)
  have c: "created_on ''2025-01-01'' [doc_c] = 1"
    by (simp add: created_on_def doc_c_def)
  show ?thesis
    unfolding get_stats_Inr[OF midnight_in_range] get_stats_Inr[OF ticking_in_range]
    using a b c by simp
qed

end
